theory Spec2Isabelle
  imports Main
begin

section \<open>Shared data: exceptions, bytes, the local filesystem\<close>

text \<open>
  The embedding follows \<^verbatim>\<open>src/download.py\<close> (class \<^verbatim>\<open>Downloader\<close>). Python
  exceptions are values: a function that can raise returns \<open>exc + 'a\<close> with \<open>Inl\<close> the
  exception. The string carried by an exception abbreviates the message of the source.
\<close>

datatype exc =
    ValueError string
  | FileNotFoundError string
  | RuntimeError string
  | HttpError string
  | OSError string

type_synonym bytes = string

text \<open>
  The local filesystem as the code observes it: a path either does not exist or holds the
  bytes of a regular file. The path type \<open>'p\<close> stands for \<^verbatim>\<open>pathlib.Path\<close>.
\<close>

type_synonym 'p fs = "'p \<Rightarrow> bytes option"

text \<open>Python truthiness of an \<^verbatim>\<open>Optional[str]\<close>: \<^verbatim>\<open>None\<close> and \<^verbatim>\<open>""\<close> are falsy.\<close>

definition truthy_str :: "string option \<Rightarrow> bool" where
  "truthy_str s = (case s of None \<Rightarrow> False | Some v \<Rightarrow> v \<noteq> [])"

section \<open>Verifier: \<^verbatim>\<open>_calculate_md5\<close> and \<^verbatim>\<open>_verify_local_file\<close>\<close>

text \<open>
  \<^verbatim>\<open>iter(lambda: handle.read(chunk_size), b"")\<close>: successive reads of at most
  \<open>chunk_size\<close> bytes until a read returns the empty bytes object.
\<close>

function read_chunks :: "nat \<Rightarrow> bytes \<Rightarrow> bytes list" where
  "read_chunks chunk_size content =
     (if take chunk_size content = [] then []
      else take chunk_size content # read_chunks chunk_size (drop chunk_size content))"
  by pat_completeness auto
termination
  by (relation "measure (\<lambda>(n, content). length content)") auto

declare read_chunks.simps [simp del]

text \<open>
  \<^verbatim>\<open>hashlib.md5\<close> is a library: \<open>md5_hex\<close> is the hex digest of a byte string, a
  parameter. A digest object is modelled by the bytes it has been fed (\<^verbatim>\<open>update\<close>
  appends); \<^verbatim>\<open>hexdigest\<close> applies \<open>md5_hex\<close>. The argument is the content of the file the
  source opens.
\<close>

definition calculate_md5 :: "(bytes \<Rightarrow> string) \<Rightarrow> nat \<Rightarrow> bytes \<Rightarrow> string" where
  "calculate_md5 md5_hex chunk_size content =
     md5_hex (foldl (\<lambda>digest chunk. digest @ chunk) [] (read_chunks chunk_size content))"

definition default_chunk_size :: nat where
  "default_chunk_size = 1048576"

text \<open>
  \<^verbatim>\<open>_verify_local_file(path, expected_size, expected_md5)\<close>; \<open>verify_downloads\<close> is the
  field of the downloader. \<^verbatim>\<open>path.stat().st_size\<close> is the length of the content.
\<close>

definition verify_local_file ::
  "bool \<Rightarrow> (bytes \<Rightarrow> string) \<Rightarrow> 'p fs \<Rightarrow> 'p \<Rightarrow> int option \<Rightarrow> string option \<Rightarrow> bool" where
  "verify_local_file verify_downloads md5_hex fs path expected_size expected_md5 =
     (case fs path of
        None \<Rightarrow> False
      | Some content \<Rightarrow>
          if expected_size \<noteq> None \<and> int (length content) \<noteq> the expected_size then False
          else if verify_downloads \<and> truthy_str expected_md5
               then calculate_md5 md5_hex default_chunk_size content = the expected_md5
          else True)"

section \<open>Paths and library functions\<close>

text \<open>
  \<^verbatim>\<open>pathlib\<close> and \<^verbatim>\<open>urllib.parse\<close> are libraries; the operations the code uses
  are parameters. \<open>path_join p name\<close> is \<^verbatim>\<open>p / name\<close>; \<open>relative_str p root\<close> is
  \<^verbatim>\<open>str(p.relative_to(root))\<close>, \<open>None\<close> when \<^verbatim>\<open>relative_to\<close> raises ValueError;
  \<open>add_suffix p ext\<close> is \<^verbatim>\<open>p.with_suffix(p.suffix + ext)\<close>, \<open>None\<close> when it raises
  ValueError.
\<close>

record 'p pathlib =
  path_join :: "'p \<Rightarrow> string \<Rightarrow> 'p"
  relative_str :: "'p \<Rightarrow> 'p \<Rightarrow> string option"
  add_suffix :: "'p \<Rightarrow> string \<Rightarrow> 'p option"

text \<open>
  \<open>urlparse_path url\<close> is \<^verbatim>\<open>urlparse(url).path\<close>, \<open>unquote\<close> is percent-decoding and
  \<open>path_name s\<close> is \<^verbatim>\<open>Path(s).name\<close>.
\<close>

record urllib =
  urlparse_path :: "string \<Rightarrow> string"
  unquote :: "string \<Rightarrow> string"
  path_name :: "string \<Rightarrow> string"

text \<open>
  A concrete instance for evaluating the model on examples: a path is the list of its
  components, and names are single components.
\<close>

definition posix :: "(string list) pathlib" where
  "posix = \<lparr>
     path_join = (\<lambda>p name. p @ [name]),
     relative_str = (\<lambda>p root.
        if take (length root) p = root
        then Some (foldr (\<lambda>c acc. if acc = [] then c else c @ ''/'' @ acc) (drop (length root) p) [])
        else None),
     add_suffix = (\<lambda>p ext.
        if p = [] \<or> CHR ''/'' \<in> set ext then None else Some (butlast p @ [last p @ ext])) \<rparr>"

section \<open>Config loader: \<^verbatim>\<open>DownloadItem\<close>, \<^verbatim>\<open>SourceConfig\<close>, \<^verbatim>\<open>_load_config\<close>\<close>

datatype ItemKind = http_file | gdrive_folder

record DownloadItem =
  kind :: ItemKind
  url :: "string option"
  filename :: "string option"
  folder_id :: "string option"
  recursive :: bool

record SourceConfig =
  source :: string
  description :: "string option"
  output_dir :: string
  subdir :: string
  items :: "DownloadItem list"

text \<open>
  The document \<^verbatim>\<open>yaml.safe_load\<close> returns. A key that is absent is \<open>None\<close>; values
  have the types the dataclasses declare. An entry of \<^verbatim>\<open>items\<close> that is not a mapping
  is \<open>YOther\<close>, a root that is not a mapping is \<open>YNotMapping\<close>.
\<close>

record yaml_item =
  y_kind :: "string option"
  y_url :: "string option"
  y_filename :: "string option"
  y_folder_id :: "string option"
  y_recursive :: "bool option"

datatype yaml_node = YMapping yaml_item | YOther

record yaml_root =
  y_source :: "string option"
  y_description :: "string option"
  y_output_dir :: "string option"
  y_subdir :: "string option"
  y_items :: "yaml_node list option"

datatype yaml_doc = YRoot yaml_root | YNotMapping

text \<open>The body of the loop \<^verbatim>\<open>for item in items_raw\<close>.\<close>

definition parse_item :: "yaml_node \<Rightarrow> exc + DownloadItem" where
  "parse_item node =
     (case node of
        YOther \<Rightarrow> Inl (ValueError ''Each item in items must be a mapping'')
      | YMapping item \<Rightarrow>
          (let kind_str = (case y_kind item of None \<Rightarrow> ''http_file'' | Some k \<Rightarrow> k) in
           if kind_str = ''http_file'' then
             (if \<not> truthy_str (y_url item)
              then Inl (ValueError ''http_file item missing required url'')
              else Inr \<lparr> kind = http_file, url = y_url item, filename = y_filename item,
                         folder_id = None, recursive = False \<rparr>)
           else if kind_str = ''gdrive_folder'' then
             (if \<not> truthy_str (y_folder_id item)
              then Inl (ValueError ''gdrive_folder item missing folder_id'')
              else Inr \<lparr> kind = gdrive_folder, url = None, filename = None,
                         folder_id = y_folder_id item,
                         recursive = (case y_recursive item of None \<Rightarrow> False | Some b \<Rightarrow> b) \<rparr>)
           else Inl (ValueError ''Unknown item kind'')))"

fun parse_items :: "yaml_node list \<Rightarrow> DownloadItem list \<Rightarrow> exc + DownloadItem list" where
  "parse_items [] acc = Inr acc"
| "parse_items (node # rest) acc =
     (case parse_item node of
        Inl e \<Rightarrow> Inl e
      | Inr item \<Rightarrow> parse_items rest (acc @ [item]))"

text \<open>
  \<^verbatim>\<open>_load_config(base_output_dir)\<close>. The first argument is the config file: \<open>None\<close>
  when \<^verbatim>\<open>config_path\<close> does not exist, else the parsed document.
\<close>

definition load_config :: "yaml_doc option \<Rightarrow> string option \<Rightarrow> exc + SourceConfig" where
  "load_config config_file base_output_dir =
     (case config_file of
        None \<Rightarrow> Inl (FileNotFoundError ''Config file not found'')
      | Some YNotMapping \<Rightarrow> Inl (ValueError ''Config must be a mapping at root'')
      | Some (YRoot data) \<Rightarrow>
          if \<not> truthy_str (y_source data)
          then Inl (ValueError ''Config is missing required key: source'')
          else
            (let src = the (y_source data);
                 yaml_output_dir =
                   (case y_output_dir data of None \<Rightarrow> ''downloads/datasets'' | Some d \<Rightarrow> d);
                 output_root =
                   (case base_output_dir of Some b \<Rightarrow> b | None \<Rightarrow> yaml_output_dir);
                 sub = (case y_subdir data of None \<Rightarrow> src | Some s \<Rightarrow> s);
                 items_raw = (case y_items data of None \<Rightarrow> [] | Some xs \<Rightarrow> xs)
             in if items_raw = []
                then Inl (ValueError ''Config must contain a non-empty items list'')
                else (case parse_items items_raw [] of
                        Inl e \<Rightarrow> Inl e
                      | Inr parsed \<Rightarrow>
                          Inr \<lparr> source = src, description = y_description data,
                                output_dir = output_root, subdir = sub, items = parsed \<rparr>)))"

section \<open>HTTP fetcher: \<^verbatim>\<open>_download_http_file\<close>\<close>

text \<open>
  The response body as \<^verbatim>\<open>resp.iter_content\<close> delivers it: chunks, then the end of the
  stream or an exception of the connection.
\<close>

datatype body = Eof | Piece bytes body | ReadFails exc

text \<open>The loop writing the chunks: the bytes written, and the exception if one ended it.\<close>

fun write_body :: "body \<Rightarrow> bytes \<Rightarrow> exc option \<times> bytes" where
  "write_body Eof written = (None, written)"
| "write_body (Piece chunk rest) written =
     (if chunk \<noteq> [] then write_body rest (written @ chunk) else write_body rest written)"
| "write_body (ReadFails e) written = (Some e, written)"

text \<open>
  What the network and the operating system do during one HTTP download: \<open>http_get url\<close>
  is \<^verbatim>\<open>session.get\<close> followed by \<^verbatim>\<open>raise_for_status\<close>; the other fields say whether
  \<^verbatim>\<open>mkdir\<close>, opening the temp file and \<^verbatim>\<open>rename\<close> raise.
\<close>

record http_env =
  h_mkdir_fails :: "exc option"
  http_get :: "string \<Rightarrow> exc + body"
  h_open_fails :: "exc option"
  h_rename_fails :: "exc option"

text \<open>Lines 379 to 389: the name of the file an item is saved under.\<close>

definition http_filename :: "urllib \<Rightarrow> DownloadItem \<Rightarrow> exc + string" where
  "http_filename lib item =
     (if \<not> truthy_str (url item) then Inl (ValueError ''http_file item missing url'')
      else if truthy_str (filename item) then Inr (the (filename item))
      else
        (let parsed_path = urlparse_path lib (the (url item));
             fname = path_name lib (unquote lib parsed_path)
         in if fname = [] then Inl (ValueError ''Cannot infer filename from URL'')
            else Inr fname))"

definition download_http_file ::
  "urllib \<Rightarrow> 'p pathlib \<Rightarrow> http_env \<Rightarrow> DownloadItem \<Rightarrow> 'p \<Rightarrow> bool \<Rightarrow> 'p fs \<Rightarrow> exc option \<times> 'p fs" where
  "download_http_file lib pl env item target_root overwrite fs =
     (case http_filename lib item of
        Inl e \<Rightarrow> (Some e, fs)
      | Inr fname \<Rightarrow>
          (let dest_path = path_join pl target_root fname in
           if fs dest_path \<noteq> None \<and> \<not> overwrite then (None, fs)
           else
             (case h_mkdir_fails env of
                Some e \<Rightarrow> (Some e, fs)
              | None \<Rightarrow>
                  (case http_get env (the (url item)) of
                     Inl e \<Rightarrow> (Some e, fs)
                   | Inr resp \<Rightarrow>
                       (case add_suffix pl dest_path ''.part'' of
                          None \<Rightarrow> (Some (ValueError ''Invalid suffix''), fs)
                        | Some tmp_path \<Rightarrow>
                            (case h_open_fails env of
                               Some e \<Rightarrow> (Some e, fs)
                             | None \<Rightarrow>
                                 (case write_body resp [] of
                                    (Some e, written) \<Rightarrow> (Some e, fs(tmp_path \<mapsto> written))
                                  | (None, written) \<Rightarrow>
                                      (case h_rename_fails env of
                                         Some e \<Rightarrow> (Some e, fs(tmp_path \<mapsto> written))
                                       | None \<Rightarrow>
                                           (None, (fs(tmp_path := None))(dest_path \<mapsto> written))))))))))"

section \<open>Drive walker: \<^verbatim>\<open>_walk_folder\<close>\<close>

text \<open>
  One element of \<^verbatim>\<open>response["files"]\<close>, with the fields the request asks for
  (\<^verbatim>\<open>id,name,mimeType,md5Checksum,size\<close>); a key the API leaves out is \<open>None\<close>. The
  API sends \<^verbatim>\<open>size\<close> as a decimal string.
\<close>

record file_item =
  item_id :: string
  item_name :: "string option"
  item_mimeType :: "string option"
  item_md5Checksum :: "string option"
  item_size :: "string option"

record response =
  files :: "file_item list"
  nextPageToken :: "string option"

text \<open>The keyword arguments of \<^verbatim>\<open>drive_service.files().list(...)\<close>.\<close>

record list_request =
  q :: string
  spaces :: string
  fields_arg :: string
  pageToken :: "string option"
  pageSize :: nat
  supportsAllDrives :: bool
  includeItemsFromAllDrives :: bool

text \<open>The dictionary \<^verbatim>\<open>metadata\<close> the walker yields.\<close>

record metadata =
  meta_id :: string
  meta_name :: string
  meta_mimeType :: "string option"
  meta_md5Checksum :: "string option"
  meta_size :: "int option"

definition folder_mime :: string where
  "folder_mime = ''application/vnd.google-apps.folder''"

text \<open>\<^verbatim>\<open>f"'{current_folder_id}' in parents and trashed = false"\<close>\<close>

definition list_query :: "string \<Rightarrow> string" where
  "list_query current_folder_id =
     [CHR 0x27] @ current_folder_id @ [CHR 0x27] @ '' in parents and trashed = false''"

definition make_request :: "string \<Rightarrow> string option \<Rightarrow> nat \<Rightarrow> list_request" where
  "make_request current_folder_id page_token page_size =
     \<lparr> q = list_query current_folder_id,
       spaces = ''drive'',
       fields_arg = ''nextPageToken, files(id,name,mimeType,md5Checksum,size)'',
       pageToken = page_token,
       pageSize = page_size,
       supportsAllDrives = True,
       includeItemsFromAllDrives = True \<rparr>"

text \<open>\<^verbatim>\<open>file_item.get("name") or file_item["id"]\<close>\<close>

definition child_name :: "file_item \<Rightarrow> string" where
  "child_name file_item =
     (if truthy_str (item_name file_item) then the (item_name file_item) else item_id file_item)"

text \<open>
  \<open>int_of\<close> is Python's \<^verbatim>\<open>int\<close> on the decimal strings of the API, a parameter.
\<close>

definition make_metadata :: "(string \<Rightarrow> int) \<Rightarrow> file_item \<Rightarrow> metadata" where
  "make_metadata int_of file_item =
     \<lparr> meta_id = item_id file_item,
       meta_name = child_name file_item,
       meta_mimeType = item_mimeType file_item,
       meta_md5Checksum = item_md5Checksum file_item,
       meta_size = (if truthy_str (item_size file_item)
                    then Some (int_of (the (item_size file_item))) else None) \<rparr>"

text \<open>
  The loop \<^verbatim>\<open>for file_item in response.get("files", [])\<close>. The state is the stack (a
  Python list: \<^verbatim>\<open>append\<close> adds at the end, \<^verbatim>\<open>pop\<close> takes from the end) and the
  pairs yielded so far.
\<close>

type_synonym 'p frames = "(string \<times> 'p) list"
type_synonym 'p yielded = "(metadata \<times> 'p) list"

fun walk_children ::
  "(string \<Rightarrow> int) \<Rightarrow> ('p \<Rightarrow> string \<Rightarrow> 'p) \<Rightarrow> bool \<Rightarrow> 'p \<Rightarrow> file_item list
     \<Rightarrow> 'p frames \<times> 'p yielded \<Rightarrow> 'p frames \<times> 'p yielded" where
  "walk_children int_of joinp recursive_flag current_local [] (stack, out) = (stack, out)"
| "walk_children int_of joinp recursive_flag current_local (file_item # rest) (stack, out) =
     (let mime_type = item_mimeType file_item;
          name = child_name file_item
      in if mime_type = Some folder_mime \<and> recursive_flag then
           walk_children int_of joinp recursive_flag current_local rest
             (stack @ [(item_id file_item, joinp current_local name)], out)
         else if mime_type \<noteq> Some folder_mime then
           walk_children int_of joinp recursive_flag current_local rest
             (stack, out @ [(make_metadata int_of file_item, joinp current_local name)])
         else
           walk_children int_of joinp recursive_flag current_local rest (stack, out))"

text \<open>
  The two nested \<^verbatim>\<open>while\<close> loops. The Drive API is a function from the request to
  the response or the exception \<^verbatim>\<open>execute()\<close> raises, so a walk need not end (a
  listing can hand out page tokens for ever): each API call and each pop uses one unit
  of fuel, and \<open>None\<close> is a walk that has not ended within the fuel. The result of a
  walk that ends is the sequence of yielded pairs and the exception that ended it, if
  one did.
\<close>

type_synonym 'p walk_out = "'p yielded \<times> exc option"

fun paginate ::
  "nat \<Rightarrow> (list_request \<Rightarrow> exc + response) \<Rightarrow> (string \<Rightarrow> int) \<Rightarrow> ('p \<Rightarrow> string \<Rightarrow> 'p) \<Rightarrow> bool \<Rightarrow> nat
     \<Rightarrow> string \<Rightarrow> 'p \<Rightarrow> string option \<Rightarrow> 'p frames \<Rightarrow> 'p yielded \<Rightarrow> 'p walk_out option"
and walk_stack ::
  "nat \<Rightarrow> (list_request \<Rightarrow> exc + response) \<Rightarrow> (string \<Rightarrow> int) \<Rightarrow> ('p \<Rightarrow> string \<Rightarrow> 'p) \<Rightarrow> bool \<Rightarrow> nat
     \<Rightarrow> 'p frames \<Rightarrow> 'p yielded \<Rightarrow> 'p walk_out option" where
  "paginate 0 api int_of joinp recursive_flag page_size
     current_folder_id current_local page_token stack out = None"
| "paginate (Suc fuel) api int_of joinp recursive_flag page_size
     current_folder_id current_local page_token stack out =
     (case api (make_request current_folder_id page_token page_size) of
        Inl e \<Rightarrow> Some (out, Some e)
      | Inr resp \<Rightarrow>
          (case walk_children int_of joinp recursive_flag current_local (files resp) (stack, out) of
             (stack', out') \<Rightarrow>
               if truthy_str (nextPageToken resp)
               then paginate fuel api int_of joinp recursive_flag page_size
                      current_folder_id current_local (nextPageToken resp) stack' out'
               else walk_stack fuel api int_of joinp recursive_flag page_size stack' out'))"
| "walk_stack 0 api int_of joinp recursive_flag page_size stack out = None"
| "walk_stack (Suc fuel) api int_of joinp recursive_flag page_size stack out =
     (if stack = [] then Some (out, None)
      else paginate fuel api int_of joinp recursive_flag page_size
             (fst (last stack)) (snd (last stack)) None (butlast stack) out)"

definition walk_folder ::
  "nat \<Rightarrow> (list_request \<Rightarrow> exc + response) \<Rightarrow> (string \<Rightarrow> int) \<Rightarrow> ('p \<Rightarrow> string \<Rightarrow> 'p)
     \<Rightarrow> string \<Rightarrow> 'p \<Rightarrow> bool \<Rightarrow> nat \<Rightarrow> 'p walk_out option" where
  "walk_folder fuel api int_of joinp folder local_root recursive_flag page_size =
     walk_stack fuel api int_of joinp recursive_flag page_size [(folder, local_root)] []"

definition default_page_size :: nat where
  "default_page_size = 1000"

section \<open>Drive fetcher: \<^verbatim>\<open>_download_gdrive_file\<close>\<close>

text \<open>
  What \<^verbatim>\<open>downloader.next_chunk()\<close> does, call after call: it delivers bytes and says
  whether the download is done, or raises.
\<close>

datatype media = Final bytes | Part bytes media | ChunkFails exc

text \<open>The loop \<^verbatim>\<open>while not done\<close>: the bytes written to the temp file, and the exception
  if one ended the loop.\<close>

fun write_media :: "media \<Rightarrow> bytes \<Rightarrow> exc option \<times> bytes" where
  "write_media (Final chunk) written = (None, written @ chunk)"
| "write_media (Part chunk rest) written = write_media rest (written @ chunk)"
| "write_media (ChunkFails e) written = (Some e, written)"

text \<open>
  What the Drive service and the operating system do during one download: whether
  \<^verbatim>\<open>mkdir\<close>, \<^verbatim>\<open>_get_drive_service\<close> or \<^verbatim>\<open>get_media\<close>, opening the temp file and
  \<^verbatim>\<open>replace\<close> raise, and the chunks of the media download.
\<close>

record fetch_env =
  f_mkdir_fails :: "exc option"
  f_service_fails :: "exc option"
  f_open_fails :: "exc option"
  f_media :: media
  f_replace_fails :: "exc option"

text \<open>The body of the \<^verbatim>\<open>try\<close> block (lines 705 to 740).\<close>

definition fetch_body ::
  "bool \<Rightarrow> (bytes \<Rightarrow> string) \<Rightarrow> fetch_env \<Rightarrow> 'p \<Rightarrow> 'p \<Rightarrow> string option \<Rightarrow> int option \<Rightarrow> 'p fs
     \<Rightarrow> exc option \<times> 'p fs" where
  "fetch_body verify_downloads md5_hex env tmp_path dest_path expected_md5 expected_size fs =
     (case f_service_fails env of
        Some e \<Rightarrow> (Some e, fs)
      | None \<Rightarrow>
          (case f_open_fails env of
             Some e \<Rightarrow> (Some e, fs)
           | None \<Rightarrow>
               (case write_media (f_media env) [] of
                  (Some e, written) \<Rightarrow> (Some e, fs(tmp_path \<mapsto> written))
                | (None, written) \<Rightarrow>
                    (case f_replace_fails env of
                       Some e \<Rightarrow> (Some e, fs(tmp_path \<mapsto> written))
                     | None \<Rightarrow>
                         (let fs' = (fs(tmp_path := None))(dest_path \<mapsto> written) in
                          if verify_downloads
                             \<and> \<not> verify_local_file verify_downloads md5_hex fs' dest_path
                                   expected_size expected_md5
                          then (Some (RuntimeError ''Verification failed''), fs')
                          else (None, fs'))))))"

text \<open>
  The \<^verbatim>\<open>except Exception\<close> handler (lines 741 to 747); \<^verbatim>\<open>unlink\<close> is taken to
  succeed.
\<close>

definition fetch_cleanup :: "'p \<Rightarrow> 'p \<Rightarrow> 'p fs \<Rightarrow> 'p fs" where
  "fetch_cleanup tmp_path dest_path fs =
     (let fs1 = (if fs tmp_path \<noteq> None then fs(tmp_path := None) else fs);
          fs2 = (if fs1 dest_path \<noteq> None then fs1(dest_path := None) else fs1)
      in fs2)"

definition download_gdrive_file ::
  "bool \<Rightarrow> (bytes \<Rightarrow> string) \<Rightarrow> 'p pathlib \<Rightarrow> fetch_env
     \<Rightarrow> string \<Rightarrow> string \<Rightarrow> 'p \<Rightarrow> string option \<Rightarrow> int option \<Rightarrow> 'p fs \<Rightarrow> exc option \<times> 'p fs" where
  "download_gdrive_file verify_downloads md5_hex pl env file_id name dest_path
       expected_md5 expected_size fs =
     (case f_mkdir_fails env of
        Some e \<Rightarrow> (Some e, fs)
      | None \<Rightarrow>
          (case add_suffix pl dest_path (''.part.'' @ file_id) of
             None \<Rightarrow> (Some (ValueError ''Invalid suffix''), fs)
           | Some tmp_path \<Rightarrow>
               (case fetch_body verify_downloads md5_hex env tmp_path dest_path
                       expected_md5 expected_size fs of
                  (None, fs') \<Rightarrow> (None, fs')
                | (Some e, fs') \<Rightarrow> (Some e, fetch_cleanup tmp_path dest_path fs'))))"

section \<open>Acquisition orchestrator\<close>

text \<open>The fields of the \<^verbatim>\<open>Downloader\<close> the orchestrator reads.\<close>

record Downloader =
  config :: SourceConfig
  manifest_only :: bool
  verify_only :: bool
  verify_downloads :: bool
  use_progress :: bool

text \<open>The library functions of a run; \<open>path_of\<close> is the constructor \<^verbatim>\<open>Path(...)\<close>.\<close>

record 'p libs =
  md5_hexdigest :: "bytes \<Rightarrow> string"
  py_int :: "string \<Rightarrow> int"
  urls :: urllib
  paths :: "'p pathlib"
  path_of :: "string \<Rightarrow> 'p"

text \<open>One dictionary of the list \<^verbatim>\<open>manifest\<close>.\<close>

record manifest_entry =
  entry_id :: string
  entry_path :: string
  entry_md5 :: "string option"
  entry_size :: "int option"

text \<open>The arguments of one \<^verbatim>\<open>executor.submit(self._download_gdrive_file, ...)\<close>.\<close>

record 'p download_request =
  req_file_id :: string
  req_name :: string
  req_dest_path :: 'p
  req_expected_md5 :: "string option"
  req_expected_size :: "int option"

text \<open>The local variables of \<^verbatim>\<open>_download_gdrive_folder\<close> that the listing loop updates.\<close>

record 'p listing =
  manifest :: "manifest_entry list"
  futures :: "'p download_request list"
  scheduled_count :: nat
  seen_md5_by_path :: "string \<rightharpoonup> string set"
  skipped_duplicate_count :: nat
  conflict_md5s_by_path :: "string \<rightharpoonup> string set"

definition initial_listing :: "'p listing" where
  "initial_listing =
     \<lparr> manifest = [], futures = [], scheduled_count = 0, seen_md5_by_path = Map.empty,
       skipped_duplicate_count = 0, conflict_md5s_by_path = Map.empty \<rparr>"

text \<open>
  What the orchestrator's thread does to the world outside its variables: the content of
  \<^verbatim>\<open>target_root / ".manifest.json"\<close> (the list that was serialised; \<open>None\<close> when the file
  does not exist) and the sequence of its effects, in the order it performed them.
  Downloads run on worker threads and are seen by the orchestrator only through
  \<^verbatim>\<open>future.result()\<close>.
\<close>

datatype log_level = INFO | WARNING | ERROR

datatype event =
    WriteText "manifest_entry list" "exc option"
  | Log log_level string
  | FutureResult nat "exc option"
  | Shutdown bool

record world =
  manifest_file :: "manifest_entry list option"
  trace :: "event list"

definition emit :: "event list \<Rightarrow> world \<Rightarrow> world" where
  "emit evs w = w\<lparr> trace := trace w @ evs \<rparr>"

text \<open>
  The environment of one \<^verbatim>\<open>_download_gdrive_folder\<close> call, as the orchestrator meets
  it: whether \<^verbatim>\<open>_get_drive_service\<close> raises; the Drive list API; the local filesystem
  as it is when the \<open>i\<close>-th yielded pair is handled (workers change it meanwhile); whether
  \<^verbatim>\<open>write_text\<close> raises; the filesystem during verify-only; the order in which
  \<^verbatim>\<open>as_completed\<close> hands out the futures (by their index in \<^verbatim>\<open>futures\<close>); and for
  the \<open>i\<close>-th future the filesystem and the environment its worker runs in.
\<close>

record 'p folder_env =
  service_fails :: "exc option"
  drive_api :: "list_request \<Rightarrow> exc + response"
  observe :: "nat \<Rightarrow> 'p fs"
  write_fails :: "exc option"
  verify_fs :: "'p fs"
  as_completed :: "nat \<Rightarrow> nat list"
  worker_env :: "nat \<Rightarrow> fetch_env"
  worker_fs :: "nat \<Rightarrow> 'p fs"

text \<open>\<^verbatim>\<open>submit_download(file_meta, dest_path)\<close>; \<^verbatim>\<open>metadata\<close> has no key \<^verbatim>\<open>title\<close>.\<close>

definition submit_download :: "'p listing \<Rightarrow> metadata \<Rightarrow> 'p \<Rightarrow> 'p listing" where
  "submit_download st file_meta dest_path =
     st\<lparr> futures := futures st @
            [\<lparr> req_file_id = meta_id file_meta,
               req_name = (if meta_name file_meta \<noteq> [] then meta_name file_meta
                           else meta_id file_meta),
               req_dest_path = dest_path,
               req_expected_md5 = meta_md5Checksum file_meta,
               req_expected_size = meta_size file_meta \<rparr>],
         scheduled_count := scheduled_count st + 1 \<rparr>"

text \<open>
  The dedupe block (lines 512 to 523 and 581 to 592): \<open>True\<close> is the \<^verbatim>\<open>continue\<close> of an
  identical path and md5. \<^verbatim>\<open>existing.add\<close> changes the set stored in
  \<^verbatim>\<open>seen_md5_by_path\<close>; \<^verbatim>\<open>set(existing)\<close> is a copy.
\<close>

definition dedupe :: "'p listing \<Rightarrow> string \<Rightarrow> string option \<Rightarrow> bool \<times> 'p listing" where
  "dedupe st rel_path_str expected_md5 =
     (if truthy_str expected_md5 then
        (case seen_md5_by_path st rel_path_str of
           None \<Rightarrow>
             (False, st\<lparr> seen_md5_by_path :=
                          (seen_md5_by_path st)(rel_path_str \<mapsto> {the expected_md5}) \<rparr>)
         | Some existing \<Rightarrow>
             if the expected_md5 \<in> existing then
               (True, st\<lparr> skipped_duplicate_count := skipped_duplicate_count st + 1 \<rparr>)
             else
               (False, st\<lparr> seen_md5_by_path :=
                            (seen_md5_by_path st)(rel_path_str \<mapsto> insert (the expected_md5) existing),
                          conflict_md5s_by_path :=
                            (conflict_md5s_by_path st)(rel_path_str \<mapsto> insert (the expected_md5) existing) \<rparr>))
      else (False, st))"

text \<open>The local-skip block (lines 524 to 530 and 593 to 599): \<open>True\<close> is a
  \<^verbatim>\<open>continue\<close>.\<close>

definition local_skip ::
  "Downloader \<Rightarrow> 'p libs \<Rightarrow> bool \<Rightarrow> 'p fs \<Rightarrow> 'p \<Rightarrow> int option \<Rightarrow> string option \<Rightarrow> bool" where
  "local_skip self lb overwrite fs dest_path expected_size expected_md5 =
     (if fs dest_path \<noteq> None \<and> \<not> overwrite then
        (if verify_downloads self
            \<and> verify_local_file (verify_downloads self) (md5_hexdigest lb) fs dest_path
                  expected_size expected_md5
         then True
         else if \<not> verify_downloads self then True
         else False)
      else False)"

text \<open>
  The body of \<^verbatim>\<open>for file_meta, dest_path in generator\<close>, the same in both branches of
  \<^verbatim>\<open>use_progress\<close>. \<^verbatim>\<open>relative_to\<close> raises ValueError before the entry is appended.
\<close>

definition process_entry ::
  "Downloader \<Rightarrow> 'p libs \<Rightarrow> 'p \<Rightarrow> bool \<Rightarrow> 'p fs \<Rightarrow> 'p listing \<Rightarrow> metadata \<times> 'p
     \<Rightarrow> exc option \<times> 'p listing" where
  "process_entry self lb target_root overwrite fs st yielded_pair =
     (case yielded_pair of (file_meta, dest_path) \<Rightarrow>
        (case relative_str (paths lb) dest_path target_root of
           None \<Rightarrow> (Some (ValueError ''path is not in the subpath of target_root''), st)
         | Some rel_path_str \<Rightarrow>
             (let st1 = st\<lparr> manifest := manifest st @
                             [\<lparr> entry_id = meta_id file_meta,
                                entry_path = rel_path_str,
                                entry_md5 = meta_md5Checksum file_meta,
                                entry_size = meta_size file_meta \<rparr>] \<rparr>
              in if manifest_only self \<or> verify_only self then (None, st1)
                 else
                   (let expected_size = meta_size file_meta;
                        expected_md5 = meta_md5Checksum file_meta
                    in (case dedupe st1 rel_path_str expected_md5 of
                          (True, st2) \<Rightarrow> (None, st2)
                        | (False, st2) \<Rightarrow>
                            if local_skip self lb overwrite fs dest_path expected_size expected_md5
                            then (None, st2)
                            else (None, submit_download st2 file_meta dest_path))))))"

text \<open>
  The \<^verbatim>\<open>for\<close> loop over the pairs the generator yields; \<open>i\<close> counts the pairs handled
  so far. An exception leaves the loop with the variables as they are.
\<close>

fun listing_loop ::
  "Downloader \<Rightarrow> 'p libs \<Rightarrow> 'p \<Rightarrow> bool \<Rightarrow> (nat \<Rightarrow> 'p fs) \<Rightarrow> nat \<Rightarrow> (metadata \<times> 'p) list
     \<Rightarrow> 'p listing \<Rightarrow> exc option \<times> 'p listing" where
  "listing_loop self lb target_root overwrite obs i [] st = (None, st)"
| "listing_loop self lb target_root overwrite obs i (yielded_pair # rest) st =
     (case process_entry self lb target_root overwrite (obs i) st yielded_pair of
        (Some e, st') \<Rightarrow> (Some e, st')
      | (None, st') \<Rightarrow> listing_loop self lb target_root overwrite obs (Suc i) rest st')"

text \<open>
  \<^verbatim>\<open>_write_manifest(target_root, manifest)\<close>; the first argument says whether
  \<^verbatim>\<open>write_text\<close> (or \<^verbatim>\<open>json.dumps\<close>) raises. What a failed write leaves in the file is
  not modelled: the file stays as it was.
\<close>

definition write_manifest ::
  "exc option \<Rightarrow> manifest_entry list \<Rightarrow> world \<Rightarrow> exc option \<times> world" where
  "write_manifest write_text_fails entries w =
     (if entries = [] then (None, w)
      else
        (case write_text_fails of
           None \<Rightarrow>
             (None, emit [WriteText entries None, Log INFO ''Wrote manifest'']
                      (w\<lparr> manifest_file := Some entries \<rparr>))
         | Some e \<Rightarrow>
             (None, emit [WriteText entries (Some e), Log WARNING ''Failed to write manifest''] w)))"

text \<open>\<^verbatim>\<open>_verify_against_manifest(target_root, manifest)\<close>\<close>

definition verify_against_manifest ::
  "Downloader \<Rightarrow> 'p libs \<Rightarrow> 'p fs \<Rightarrow> 'p \<Rightarrow> manifest_entry list \<Rightarrow> world \<Rightarrow> exc option \<times> world" where
  "verify_against_manifest self lb fs target_root entries w =
     (let missing =
            map entry_path
              (filter (\<lambda>entry.
                 \<not> verify_local_file (verify_downloads self) (md5_hexdigest lb) fs
                     (path_join (paths lb) target_root (entry_path entry))
                     (case entry_size entry of
                        None \<Rightarrow> None
                      | Some n \<Rightarrow> if n \<noteq> 0 then Some n else None)
                     (entry_md5 entry)) entries)
      in if missing \<noteq> []
         then (Some (RuntimeError ''Verification failed - see log for details''),
               emit [Log ERROR ''Verification failed''] w)
         else (None, emit [Log INFO ''Verification succeeded''] w))"

text \<open>The result of the \<open>i\<close>-th future: what its worker's \<^verbatim>\<open>_download_gdrive_file\<close> raised.\<close>

definition future_result ::
  "Downloader \<Rightarrow> 'p libs \<Rightarrow> 'p folder_env \<Rightarrow> nat \<Rightarrow> 'p download_request \<Rightarrow> exc option" where
  "future_result self lb env i req =
     fst (download_gdrive_file (verify_downloads self) (md5_hexdigest lb) (paths lb) (worker_env env i)
            (req_file_id req) (req_name req) (req_dest_path req)
            (req_expected_md5 req) (req_expected_size req) (worker_fs env i))"

text \<open>
  \<^verbatim>\<open>for future in as_completed(futures): future.result()\<close>, over the indices of the
  futures in their order of completion.
\<close>

fun drain ::
  "Downloader \<Rightarrow> 'p libs \<Rightarrow> 'p folder_env \<Rightarrow> 'p download_request list \<Rightarrow> nat list \<Rightarrow> world
     \<Rightarrow> exc option \<times> world" where
  "drain self lb env futs [] w = (None, w)"
| "drain self lb env futs (i # rest) w =
     (if i < length futs then
        (case future_result self lb env i (futs ! i) of
           Some e \<Rightarrow> (Some e, emit [FutureResult i (Some e)] w)
         | None \<Rightarrow> drain self lb env futs rest (emit [FutureResult i None] w))
      else drain self lb env futs rest w)"

text \<open>The two log messages after the listing.\<close>

definition summary_logs :: "'p listing \<Rightarrow> world \<Rightarrow> world" where
  "summary_logs st w =
     (let w1 = (if skipped_duplicate_count st \<noteq> 0
                then emit [Log INFO ''Deduped download(s) by identical path+md5''] w else w)
      in if conflict_md5s_by_path st \<noteq> Map.empty
         then emit [Log WARNING ''Detected path(s) with multiple different md5 values''] w1
         else w1)"

text \<open>
  What follows the listing loop. With \<^verbatim>\<open>use_progress\<close> the two messages come before
  \<^verbatim>\<open>_write_manifest\<close> (lines 535 to 561), without it after (lines 602 to 625).
\<close>

definition after_listing ::
  "Downloader \<Rightarrow> 'p libs \<Rightarrow> 'p folder_env \<Rightarrow> 'p \<Rightarrow> 'p listing \<Rightarrow> world \<Rightarrow> exc option \<times> world" where
  "after_listing self lb env target_root st w =
     (let w1 = (if use_progress self
                then snd (write_manifest (write_fails env) (manifest st) (summary_logs st w))
                else summary_logs st (snd (write_manifest (write_fails env) (manifest st) w)))
      in if manifest_only self then (None, emit [Shutdown False] w1)
         else if verify_only self then
           (case verify_against_manifest self lb (verify_fs env) target_root (manifest st) w1 of
              (Some e, w2) \<Rightarrow> (Some e, w2)
            | (None, w2) \<Rightarrow> (None, emit [Shutdown False] w2))
         else
           (case drain self lb env (futures st) (as_completed env (length (futures st))) w1 of
              (Some e, w2) \<Rightarrow> (Some e, w2)
            | (None, w2) \<Rightarrow> (None, emit [Shutdown True] w2)))"

text \<open>The walker's \<^verbatim>\<open>except HttpError\<close>: it logs the error and raises it again.\<close>

definition walker_log :: "exc \<Rightarrow> event list" where
  "walker_log e = (case e of HttpError msg \<Rightarrow> [Log ERROR ''Failed to list folder''] | _ \<Rightarrow> [])"

text \<open>
  \<^verbatim>\<open>_download_gdrive_folder(item, target_root, overwrite)\<close>. The generator is consumed
  by the loop: the exception that ends a walk is raised in the loop after the pairs
  yielded before it, and the walker logs it when it is an \<^verbatim>\<open>HttpError\<close>. \<open>None\<close> is a
  walk that does not end within the fuel. The progress display, and the message the
  branch without it logs every five seconds of listing, are left out.
\<close>

definition download_gdrive_folder ::
  "Downloader \<Rightarrow> 'p libs \<Rightarrow> 'p folder_env \<Rightarrow> nat \<Rightarrow> DownloadItem \<Rightarrow> 'p \<Rightarrow> bool \<Rightarrow> world
     \<Rightarrow> (exc option \<times> world) option" where
  "download_gdrive_folder self lb env fuel item target_root overwrite w =
     (if \<not> truthy_str (folder_id item)
      then Some (Some (ValueError ''gdrive_folder item missing folder_id''), w)
      else
        (case service_fails env of
           Some e \<Rightarrow> Some (Some e, w)
         | None \<Rightarrow>
             (let w0 = emit [Log INFO ''Downloading Google Drive folder''] w in
              case walk_folder fuel (drive_api env) (py_int lb) (path_join (paths lb))
                     (the (folder_id item)) target_root (recursive item) default_page_size of
                None \<Rightarrow> None
              | Some (pairs, walk_error) \<Rightarrow>
                  (case listing_loop self lb target_root overwrite (observe env) 0 pairs
                          initial_listing of
                     (Some e, st) \<Rightarrow> Some (Some e, w0)
                   | (None, st) \<Rightarrow>
                       (case walk_error of
                          Some e \<Rightarrow> Some (Some e, emit (walker_log e) w0)
                        | None \<Rightarrow> Some (after_listing self lb env target_root st w0))))))"

text \<open>
  The environment of \<^verbatim>\<open>download_all\<close>: whether creating \<^verbatim>\<open>target_root\<close> raises; for
  the \<open>i\<close>-th HTTP item the filesystem and the network its worker meets, and the order
  of completion of the HTTP futures; for the \<open>i\<close>-th Drive folder item its environment.
\<close>

record 'p run_env =
  root_mkdir_fails :: "exc option"
  http_worker_env :: "nat \<Rightarrow> http_env"
  http_worker_fs :: "nat \<Rightarrow> 'p fs"
  http_as_completed :: "nat \<Rightarrow> nat list"
  folder_envs :: "nat \<Rightarrow> 'p folder_env"

definition http_future_result ::
  "'p libs \<Rightarrow> 'p run_env \<Rightarrow> 'p \<Rightarrow> bool \<Rightarrow> nat \<Rightarrow> DownloadItem \<Rightarrow> exc option" where
  "http_future_result lb env target_root overwrite i item =
     fst (download_http_file (urls lb) (paths lb) (http_worker_env env i) item target_root
            overwrite (http_worker_fs env i))"

fun http_drain ::
  "'p libs \<Rightarrow> 'p run_env \<Rightarrow> 'p \<Rightarrow> bool \<Rightarrow> DownloadItem list \<Rightarrow> nat list \<Rightarrow> world
     \<Rightarrow> exc option \<times> world" where
  "http_drain lb env target_root overwrite its [] w = (None, w)"
| "http_drain lb env target_root overwrite its (i # rest) w =
     (if i < length its then
        (case http_future_result lb env target_root overwrite i (its ! i) of
           Some e \<Rightarrow> (Some e, emit [FutureResult i (Some e)] w)
         | None \<Rightarrow> http_drain lb env target_root overwrite its rest (emit [FutureResult i None] w))
      else http_drain lb env target_root overwrite its rest w)"

text \<open>\<^verbatim>\<open>_download_http_files(items, target_root, overwrite)\<close>\<close>

definition download_http_files ::
  "Downloader \<Rightarrow> 'p libs \<Rightarrow> 'p run_env \<Rightarrow> DownloadItem list \<Rightarrow> 'p \<Rightarrow> bool \<Rightarrow> world
     \<Rightarrow> exc option \<times> world" where
  "download_http_files self lb env its target_root overwrite w =
     (if manifest_only self
      then (None, emit [Log INFO ''Manifest-only mode: skipping HTTP downloads.''] w)
      else if verify_only self
      then (None, emit [Log INFO ''Verify-only mode: skipping HTTP downloads (no manifest available).''] w)
      else
        (case http_drain lb env target_root overwrite its (http_as_completed env (length its))
                (emit [Log INFO ''Downloading HTTP file(s)''] w) of
           (Some e, w') \<Rightarrow> (Some e, w')
         | (None, w') \<Rightarrow> (None, emit [Shutdown True] w')))"

text \<open>The loop \<^verbatim>\<open>for item in gdrive_items\<close>; \<open>i\<close> is the index of the item among them.\<close>

fun folders_loop ::
  "Downloader \<Rightarrow> 'p libs \<Rightarrow> 'p run_env \<Rightarrow> nat \<Rightarrow> 'p \<Rightarrow> bool \<Rightarrow> nat \<Rightarrow> DownloadItem list \<Rightarrow> world
     \<Rightarrow> (exc option \<times> world) option" where
  "folders_loop self lb env fuel target_root overwrite i [] w = Some (None, w)"
| "folders_loop self lb env fuel target_root overwrite i (item # rest) w =
     (case download_gdrive_folder self lb (folder_envs env i) fuel item target_root overwrite w of
        None \<Rightarrow> None
      | Some (Some e, w') \<Rightarrow> Some (Some e, w')
      | Some (None, w') \<Rightarrow> folders_loop self lb env fuel target_root overwrite (Suc i) rest w')"

text \<open>\<^verbatim>\<open>download_all(overwrite)\<close>\<close>

definition download_all ::
  "Downloader \<Rightarrow> 'p libs \<Rightarrow> 'p run_env \<Rightarrow> nat \<Rightarrow> bool \<Rightarrow> world \<Rightarrow> (exc option \<times> world) option" where
  "download_all self lb env fuel overwrite w =
     (let target_root =
            path_join (paths lb) (path_of lb (output_dir (config self))) (subdir (config self))
      in (case root_mkdir_fails env of
            Some e \<Rightarrow> Some (Some e, w)
          | None \<Rightarrow>
              (let w0 = emit [Log INFO ''Downloading item(s)''] w;
                   http_items = filter (\<lambda>item. kind item = http_file) (items (config self));
                   gdrive_items = filter (\<lambda>item. kind item = gdrive_folder) (items (config self))
               in (case (if http_items \<noteq> []
                         then download_http_files self lb env http_items target_root overwrite w0
                         else (None, w0)) of
                     (Some e, w1) \<Rightarrow> Some (Some e, w1)
                   | (None, w1) \<Rightarrow>
                       folders_loop self lb env fuel target_root overwrite 0 gdrive_items w1))))"

section \<open>Notions used to state the properties\<close>

text \<open>The manifest entry of a yielded pair whose relative path is \<open>rel\<close>.\<close>

definition entry_for :: "string \<Rightarrow> metadata \<Rightarrow> manifest_entry" where
  "entry_for rel file_meta =
     \<lparr> entry_id = meta_id file_meta, entry_path = rel,
       entry_md5 = meta_md5Checksum file_meta, entry_size = meta_size file_meta \<rparr>"

text \<open>The entries of a sequence of yielded pairs, in the order of the sequence.\<close>

definition entries_of :: "'p libs \<Rightarrow> 'p \<Rightarrow> (metadata \<times> 'p) list \<Rightarrow> manifest_entry list" where
  "entries_of lb target_root pairs =
     map (\<lambda>pair. entry_for (the (relative_str (paths lb) (snd pair) target_root)) (fst pair)) pairs"

text \<open>The download request of a yielded pair.\<close>

definition request_for :: "metadata \<Rightarrow> 'p \<Rightarrow> 'p download_request" where
  "request_for file_meta dest_path =
     \<lparr> req_file_id = meta_id file_meta,
       req_name = (if meta_name file_meta \<noteq> [] then meta_name file_meta else meta_id file_meta),
       req_dest_path = dest_path,
       req_expected_md5 = meta_md5Checksum file_meta,
       req_expected_size = meta_size file_meta \<rparr>"

text \<open>The attempts to write the manifest file that a trace records, in order.\<close>

fun writes_in :: "event list \<Rightarrow> (manifest_entry list \<times> exc option) list" where
  "writes_in [] = []"
| "writes_in (WriteText entries outcome # evs) = (entries, outcome) # writes_in evs"
| "writes_in (ev # evs) = writes_in evs"

text \<open>The results of futures that a trace records, in order.\<close>

fun results_in :: "event list \<Rightarrow> (nat \<times> exc option) list" where
  "results_in [] = []"
| "results_in (FutureResult i outcome # evs) = (i, outcome) # results_in evs"
| "results_in (ev # evs) = results_in evs"




text \<open>
  Whether the dedupe table records the md5 \<open>h\<close> for the relative path \<open>rel\<close>.
\<close>

definition seen_pair :: "'p listing \<Rightarrow> string \<Rightarrow> string \<Rightarrow> bool" where
  "seen_pair st rel h =
     (case seen_md5_by_path st rel of None \<Rightarrow> False | Some existing \<Rightarrow> h \<in> existing)"

text \<open>Whether a child of a Drive folder is itself a folder.\<close>

definition is_folder :: "file_item \<Rightarrow> bool" where
  "is_folder file_item = (item_mimeType file_item = Some folder_mime)"

section \<open>Example environments\<close>

text \<open>
  Concrete environments on which the model is evaluated. In the first the second call of
  \<^verbatim>\<open>next_chunk\<close> raises after two bytes were written; in the second the download
  delivers three bytes in two chunks.
\<close>

definition fetch_env_chunk_fails :: fetch_env where
  "fetch_env_chunk_fails = \<lparr> f_mkdir_fails = None, f_service_fails = None, f_open_fails = None,
     f_media = Part ''ab'' (ChunkFails (HttpError ''500'')), f_replace_fails = None \<rparr>"

definition fetch_env_three_bytes :: fetch_env where
  "fetch_env_three_bytes = \<lparr> f_mkdir_fails = None, f_service_fails = None, f_open_fails = None,
     f_media = Part ''ab'' (Final ''c''), f_replace_fails = None \<rparr>"

text \<open>
  Library functions for the examples. The hex digest of a byte string is taken to be its
  reversal, and \<^verbatim>\<open>int\<close> reads decimal digits. The URL functions agree with
  \<^verbatim>\<open>urllib.parse\<close> and \<^verbatim>\<open>pathlib\<close> on the URLs of the examples: the path of
  \<^verbatim>\<open>https://host/\<close> is \<^verbatim>\<open>/\<close> and that of \<^verbatim>\<open>https://host/x.txt\<close> is \<^verbatim>\<open>/x.txt\<close>,
  neither has an escape to decode, and the name is what follows the last slash.
\<close>

definition example_urls :: urllib where
  "example_urls = \<lparr>
     urlparse_path = (\<lambda>u. if u = ''https://host/'' then ''/''
                          else if u = ''https://host/x.txt'' then ''/x.txt'' else u),
     unquote = (\<lambda>s. s),
     path_name = (\<lambda>s. rev (takeWhile (\<lambda>c. c \<noteq> CHR ''/'') (rev s))) \<rparr>"

definition example_libs :: "(string list) libs" where
  "example_libs = \<lparr>
     md5_hexdigest = rev,
     py_int = (\<lambda>s. foldl (\<lambda>acc c. 10 * acc + (of_char c - 48)) 0 s),
     urls = example_urls,
     paths = posix,
     path_of = (\<lambda>s. [s]) \<rparr>"

text \<open>
  A Drive with five folders. \<^verbatim>\<open>F1\<close> holds \<^verbatim>\<open>a.txt\<close> and \<^verbatim>\<open>F2\<close> holds \<^verbatim>\<open>b.txt\<close>.
  \<^verbatim>\<open>DUP\<close> holds two files of the same name and md5. \<^verbatim>\<open>EMPTY\<close> holds nothing.
  \<^verbatim>\<open>TOP\<close> is listed in two pages: a file and the subfolder \<^verbatim>\<open>SUB\<close>, then another
  file; \<^verbatim>\<open>SUB\<close> holds one file and a child without a name. The md5 of every file is
  the digest of the three bytes \<^verbatim>\<open>abc\<close> that \<open>fetch_env_three_bytes\<close> delivers.
\<close>

definition plain_file :: "string \<Rightarrow> string \<Rightarrow> file_item" where
  "plain_file file_id name =
     \<lparr> item_id = file_id, item_name = Some name, item_mimeType = Some ''text/plain'',
       item_md5Checksum = Some ''cba'', item_size = None \<rparr>"

definition example_api :: "list_request \<Rightarrow> exc + response" where
  "example_api req =
     (if q req = list_query ''F1'' then
        Inr \<lparr> files = [plain_file ''ida'' ''a.txt''], nextPageToken = None \<rparr>
      else if q req = list_query ''F2'' then
        Inr \<lparr> files = [plain_file ''idb'' ''b.txt''], nextPageToken = None \<rparr>
      else if q req = list_query ''DUP'' then
        Inr \<lparr> files = [plain_file ''id1'' ''x.pdf'', plain_file ''id2'' ''x.pdf''],
              nextPageToken = None \<rparr>
      else if q req = list_query ''EMPTY'' then
        Inr \<lparr> files = [], nextPageToken = None \<rparr>
      else if q req = list_query ''TOP'' \<and> pageToken req = None then
        Inr \<lparr> files = [plain_file ''id1'' ''one.txt'',
                       \<lparr> item_id = ''SUB'', item_name = Some ''sub'',
                         item_mimeType = Some folder_mime, item_md5Checksum = None,
                         item_size = None \<rparr>],
              nextPageToken = Some ''page2'' \<rparr>
      else if q req = list_query ''TOP'' \<and> pageToken req = Some ''page2'' then
        Inr \<lparr> files = [plain_file ''id2'' ''two.txt''], nextPageToken = None \<rparr>
      else if q req = list_query ''SUB'' then
        Inr \<lparr> files = [plain_file ''id3'' ''three.txt'',
                       \<lparr> item_id = ''id4'', item_name = None, item_mimeType = None,
                         item_md5Checksum = None, item_size = Some ''12'' \<rparr>],
              nextPageToken = None \<rparr>
      else Inl (HttpError ''404''))"

text \<open>
  An environment in which the target directory is empty, every write succeeds, the
  futures complete in the order of their submission and every download delivers the
  three bytes; and the same with downloads whose second chunk fails.
\<close>

definition example_folder_env :: "(string list) folder_env" where
  "example_folder_env = \<lparr>
     service_fails = None,
     drive_api = example_api,
     observe = (\<lambda>i. Map.empty),
     write_fails = None,
     verify_fs = Map.empty,
     as_completed = (\<lambda>n. [0..<n]),
     worker_env = (\<lambda>i. fetch_env_three_bytes),
     worker_fs = (\<lambda>i. Map.empty) \<rparr>"

definition failing_folder_env :: "(string list) folder_env" where
  "failing_folder_env = example_folder_env \<lparr> worker_env := (\<lambda>i. fetch_env_chunk_fails) \<rparr>"

definition example_run_env :: "(string list) run_env" where
  "example_run_env = \<lparr>
     root_mkdir_fails = None,
     http_worker_env = (\<lambda>i. \<lparr> h_mkdir_fails = None, http_get = (\<lambda>u. Inr (Piece ''hi'' Eof)),
                               h_open_fails = None, h_rename_fails = None \<rparr>),
     http_worker_fs = (\<lambda>i. Map.empty),
     http_as_completed = (\<lambda>n. [0..<n]),
     folder_envs = (\<lambda>i. example_folder_env) \<rparr>"

definition folder_item :: "string \<Rightarrow> DownloadItem" where
  "folder_item folder =
     \<lparr> kind = gdrive_folder, url = None, filename = None, folder_id = Some folder,
       recursive = True \<rparr>"

definition example_downloader :: "DownloadItem list \<Rightarrow> Downloader" where
  "example_downloader its = \<lparr>
     config = \<lparr> source = ''src'', description = None, output_dir = ''out'', subdir = ''src'',
                items = its \<rparr>,
     manifest_only = False, verify_only = False, verify_downloads = True,
     use_progress = False \<rparr>"

definition empty_world :: world where
  "empty_world = \<lparr> manifest_file = None, trace = [] \<rparr>"

text \<open>
  The target directory of the examples, the metadata the walker yields for a file made
  by \<open>plain_file\<close>, and its manifest entry.
\<close>

definition example_root :: "string list" where
  "example_root = [''out'', ''src'']"

definition plain_meta :: "string \<Rightarrow> string \<Rightarrow> metadata" where
  "plain_meta file_id name =
     \<lparr> meta_id = file_id, meta_name = name, meta_mimeType = Some ''text/plain'',
       meta_md5Checksum = Some ''cba'', meta_size = None \<rparr>"

definition plain_entry :: "string \<Rightarrow> string \<Rightarrow> manifest_entry" where
  "plain_entry file_id rel =
     \<lparr> entry_id = file_id, entry_path = rel, entry_md5 = Some ''cba'', entry_size = None \<rparr>"

section \<open>Properties of the verifier\<close>

lemma concat_read_chunks:
  "0 < n \<Longrightarrow> concat (read_chunks n content) = content"
proof (induction n content rule: read_chunks.induct)
  case (1 chunk_size content)
  show ?case
  proof (cases "take chunk_size content = []")
    case True
    with "1.prems" have "content = []" by (cases content) auto
    then show ?thesis by (simp add: read_chunks.simps)
  next
    case False
    with "1.IH" "1.prems" have "concat (read_chunks chunk_size (drop chunk_size content)) = drop chunk_size content"
      by simp
    with False show ?thesis
      by (subst read_chunks.simps) simp
  qed
qed

lemma foldl_append_concat:
  "foldl (\<lambda>digest chunk. digest @ chunk) acc chunks = acc @ concat chunks"
  by (induction chunks arbitrary: acc) simp_all

lemma calculate_md5_whole_file:
  "0 < n \<Longrightarrow> calculate_md5 md5_hex n content = md5_hex content"
  by (simp add: calculate_md5_def foldl_append_concat concat_read_chunks)

lemma calculate_md5_default:
  "calculate_md5 md5_hex default_chunk_size content = md5_hex content"
  by (rule calculate_md5_whole_file) (simp add: default_chunk_size_def)

text \<open>
  Claim C4, as amended. The verifier returns false when the path does not exist; false
  when an expected size is given and the actual size differs; when verification is
  enabled and an expected md5 is given and is not the empty string, it returns whether
  the MD5 of the whole file equals it; in every other case it returns true, so a file
  with no expectations is accepted whenever it exists. An expected md5 that is the
  empty string is treated as absent.
\<close>

theorem verify_local_file_rules:
  "(fs path = None \<longrightarrow> \<not> verify_local_file vd md5 fs path es em)
 \<and> (\<forall>content n. fs path = Some content \<and> es = Some n \<and> int (length content) \<noteq> n
        \<longrightarrow> \<not> verify_local_file vd md5 fs path es em)
 \<and> (\<forall>content m. fs path = Some content \<and> (es = None \<or> es = Some (int (length content)))
        \<and> vd \<and> em = Some m \<and> m \<noteq> []
        \<longrightarrow> verify_local_file vd md5 fs path es em = (md5 content = m))
 \<and> (\<forall>content. fs path = Some content \<and> (es = None \<or> es = Some (int (length content)))
        \<and> (\<not> vd \<or> em = None \<or> em = Some [])
        \<longrightarrow> verify_local_file vd md5 fs path es em)"
  by (auto simp: verify_local_file_def calculate_md5_default truthy_str_def)

text \<open>
  The rules at concrete inputs, with the hex digest replaced by a function that reverses
  the content: a missing file; a file of the wrong size; a file whose digest matches and
  one whose digest does not; and a file with no expectations.
\<close>

theorem verify_local_file_rules_witness:
  "\<not> verify_local_file True rev (Map.empty(''a'' \<mapsto> ''xyz'')) ''b'' None None
 \<and> \<not> verify_local_file True rev (Map.empty(''a'' \<mapsto> ''xyz'')) ''a'' (Some 4) None
 \<and> verify_local_file True rev (Map.empty(''a'' \<mapsto> ''xyz'')) ''a'' (Some 3) (Some ''zyx'')
 \<and> \<not> verify_local_file True rev (Map.empty(''a'' \<mapsto> ''xyz'')) ''a'' None (Some ''xyz'')
 \<and> verify_local_file False rev (Map.empty(''a'' \<mapsto> ''xyz'')) ''a'' (Some 3) (Some ''xyz'')
 \<and> verify_local_file True rev (Map.empty(''a'' \<mapsto> ''xyz'')) ''a'' None None"
  using verify_local_file_rules [of "Map.empty(''a'' \<mapsto> ''xyz'')" "''b''" True rev None None]
    verify_local_file_rules [of "Map.empty(''a'' \<mapsto> ''xyz'')" "''a''" True rev "Some 4" None]
    verify_local_file_rules [of "Map.empty(''a'' \<mapsto> ''xyz'')" "''a''" True rev "Some 3" "Some ''zyx''"]
    verify_local_file_rules [of "Map.empty(''a'' \<mapsto> ''xyz'')" "''a''" True rev None "Some ''xyz''"]
    verify_local_file_rules [of "Map.empty(''a'' \<mapsto> ''xyz'')" "''a''" False rev "Some 3" "Some ''xyz''"]
    verify_local_file_rules [of "Map.empty(''a'' \<mapsto> ''xyz'')" "''a''" True rev None None]
  by simp

text \<open>
  Claim C4 as stated fails when the expected md5 is given as the empty string: with
  verification enabled, an existing (empty) file is accepted although its digest, here
  the MD5 of the empty byte string, is not the expected one.
\<close>

theorem verify_local_file_empty_md5_counterexample:
  "verify_local_file True (\<lambda>content. ''d41d8cd98f00b204e9800998ecf8427e'')
      (Map.empty(''x.pdf'' \<mapsto> [])) ''x.pdf'' None (Some [])
   \<and> (\<lambda>content. ''d41d8cd98f00b204e9800998ecf8427e'') ([] :: bytes) \<noteq> []"
  by (simp add: verify_local_file_def truthy_str_def)

section \<open>Properties of the Drive fetcher\<close>

lemma fetch_cleanup_removes:
  "fetch_cleanup tmp dest fs tmp = None \<and> fetch_cleanup tmp dest fs dest = None
   \<and> (\<forall>p. p \<noteq> tmp \<and> p \<noteq> dest \<longrightarrow> fetch_cleanup tmp dest fs p = fs p)"
  by (auto simp: fetch_cleanup_def Let_def)

lemma fetch_body_frame:
  "fetch_body vd hex env tmp dest em es fs = (r, fs1) \<Longrightarrow> p \<noteq> tmp \<Longrightarrow> p \<noteq> dest \<Longrightarrow> fs1 p = fs p"
  by (auto simp: fetch_body_def Let_def split: option.splits prod.splits if_splits)

lemma fetch_body_verification_failure:
  "f_service_fails env = None \<Longrightarrow> f_open_fails env = None \<Longrightarrow>
   write_media (f_media env) [] = (None, written) \<Longrightarrow> f_replace_fails env = None \<Longrightarrow>
   vd \<Longrightarrow> \<not> verify_local_file vd hex ((fs(tmp := None))(dest \<mapsto> written)) dest es em \<Longrightarrow>
   fetch_body vd hex env tmp dest em es fs
     = (Some (RuntimeError ''Verification failed''), (fs(tmp := None))(dest \<mapsto> written))"
  by (simp add: fetch_body_def Let_def)

text \<open>
  Claim C3. A Drive download that raises inside the \<^verbatim>\<open>try\<close> block hands the same
  exception on, and afterwards neither the temp path nor the destination exists, and no
  other path has changed. In particular, when the download itself succeeds and the
  verification fails, a RuntimeError is raised and the destination is deleted. After any
  failure of the call, either nothing was written (the failure came before the
  \<^verbatim>\<open>try\<close>) or the temp path and the destination are both gone.
\<close>

theorem download_gdrive_file_failure:
  "(\<forall>tmp e fs1.
       f_mkdir_fails env = None
     \<and> add_suffix pl dest (''.part.'' @ file_id) = Some tmp
     \<and> fetch_body vd hex env tmp dest em es fs = (Some e, fs1)
     \<longrightarrow> (\<exists>fs'. download_gdrive_file vd hex pl env file_id name dest em es fs = (Some e, fs')
              \<and> fs' tmp = None \<and> fs' dest = None
              \<and> (\<forall>p. p \<noteq> tmp \<and> p \<noteq> dest \<longrightarrow> fs' p = fs p)))
 \<and> (\<forall>tmp written.
       f_mkdir_fails env = None
     \<and> add_suffix pl dest (''.part.'' @ file_id) = Some tmp
     \<and> f_service_fails env = None \<and> f_open_fails env = None
     \<and> write_media (f_media env) [] = (None, written) \<and> f_replace_fails env = None
     \<and> vd \<and> \<not> verify_local_file vd hex ((fs(tmp := None))(dest \<mapsto> written)) dest es em
     \<longrightarrow> (\<exists>fs'. download_gdrive_file vd hex pl env file_id name dest em es fs
                   = (Some (RuntimeError ''Verification failed''), fs')
              \<and> fs' dest = None \<and> fs' tmp = None))
 \<and> (\<forall>e fs'. download_gdrive_file vd hex pl env file_id name dest em es fs = (Some e, fs')
       \<longrightarrow> fs' = fs
           \<or> (\<exists>tmp. add_suffix pl dest (''.part.'' @ file_id) = Some tmp
                  \<and> fs' tmp = None \<and> fs' dest = None))"
proof (intro conjI allI impI)
  fix tmp e fs1
  assume a: "f_mkdir_fails env = None
     \<and> add_suffix pl dest (''.part.'' @ file_id) = Some tmp
     \<and> fetch_body vd hex env tmp dest em es fs = (Some e, fs1)"
  then have "download_gdrive_file vd hex pl env file_id name dest em es fs
      = (Some e, fetch_cleanup tmp dest fs1)"
    by (simp add: download_gdrive_file_def)
  moreover have "\<forall>p. p \<noteq> tmp \<and> p \<noteq> dest \<longrightarrow> fetch_cleanup tmp dest fs1 p = fs p"
    using a fetch_body_frame [of vd hex env tmp dest em es fs "Some e" fs1]
      fetch_cleanup_removes [of tmp dest fs1] by simp
  ultimately show "\<exists>fs'. download_gdrive_file vd hex pl env file_id name dest em es fs = (Some e, fs')
              \<and> fs' tmp = None \<and> fs' dest = None
              \<and> (\<forall>p. p \<noteq> tmp \<and> p \<noteq> dest \<longrightarrow> fs' p = fs p)"
    using fetch_cleanup_removes [of tmp dest fs1] by simp
next
  fix tmp written
  assume a: "f_mkdir_fails env = None
     \<and> add_suffix pl dest (''.part.'' @ file_id) = Some tmp
     \<and> f_service_fails env = None \<and> f_open_fails env = None
     \<and> write_media (f_media env) [] = (None, written) \<and> f_replace_fails env = None
     \<and> vd \<and> \<not> verify_local_file vd hex ((fs(tmp := None))(dest \<mapsto> written)) dest es em"
  then have "fetch_body vd hex env tmp dest em es fs
     = (Some (RuntimeError ''Verification failed''), (fs(tmp := None))(dest \<mapsto> written))"
    using fetch_body_verification_failure [of env written vd hex fs tmp dest es em] by blast
  with a have "download_gdrive_file vd hex pl env file_id name dest em es fs
      = (Some (RuntimeError ''Verification failed''),
         fetch_cleanup tmp dest ((fs(tmp := None))(dest \<mapsto> written)))"
    by (simp add: download_gdrive_file_def)
  then show "\<exists>fs'. download_gdrive_file vd hex pl env file_id name dest em es fs
                   = (Some (RuntimeError ''Verification failed''), fs')
              \<and> fs' dest = None \<and> fs' tmp = None"
    using fetch_cleanup_removes [of tmp dest "(fs(tmp := None))(dest \<mapsto> written)"] by simp
next
  fix e fs'
  assume a: "download_gdrive_file vd hex pl env file_id name dest em es fs = (Some e, fs')"
  show "fs' = fs \<or> (\<exists>tmp. add_suffix pl dest (''.part.'' @ file_id) = Some tmp
                  \<and> fs' tmp = None \<and> fs' dest = None)"
  proof (cases "f_mkdir_fails env")
    case (Some x)
    with a show ?thesis by (simp add: download_gdrive_file_def)
  next
    case None
    show ?thesis
    proof (cases "add_suffix pl dest (''.part.'' @ file_id)")
      case n: None
      with None a show ?thesis by (simp add: download_gdrive_file_def)
    next
      case (Some tmp)
      with None a obtain fs1 where "fs' = fetch_cleanup tmp dest fs1"
        by (auto simp: download_gdrive_file_def split: prod.splits option.splits)
      with Some show ?thesis using fetch_cleanup_removes [of tmp dest fs1] by simp
    qed
  qed
qed

text \<open>
  A download whose second chunk fails over an old destination file; a download of three
  bytes checked against an expected size of four; and the same download checked against
  the right size, which stays.
\<close>

theorem download_gdrive_file_failure_witness:
  "fst (download_gdrive_file True rev posix fetch_env_chunk_fails ''id1'' ''x.pdf'' [''root'', ''x.pdf'']
          None None (Map.empty([''root'', ''x.pdf''] \<mapsto> ''old''))) = Some (HttpError ''500'')
 \<and> snd (download_gdrive_file True rev posix fetch_env_chunk_fails ''id1'' ''x.pdf'' [''root'', ''x.pdf'']
          None None (Map.empty([''root'', ''x.pdf''] \<mapsto> ''old''))) [''root'', ''x.pdf.part.id1''] = None
 \<and> snd (download_gdrive_file True rev posix fetch_env_chunk_fails ''id1'' ''x.pdf'' [''root'', ''x.pdf'']
          None None (Map.empty([''root'', ''x.pdf''] \<mapsto> ''old''))) [''root'', ''x.pdf''] = None
 \<and> fst (download_gdrive_file True rev posix fetch_env_three_bytes ''id1'' ''x.pdf'' [''root'', ''x.pdf'']
          None (Some 4) Map.empty) = Some (RuntimeError ''Verification failed'')
 \<and> snd (download_gdrive_file True rev posix fetch_env_three_bytes ''id1'' ''x.pdf'' [''root'', ''x.pdf'']
          None (Some 4) Map.empty) [''root'', ''x.pdf''] = None
 \<and> fst (download_gdrive_file True rev posix fetch_env_three_bytes ''id1'' ''x.pdf'' [''root'', ''x.pdf'']
          None (Some 3) Map.empty) = None
 \<and> snd (download_gdrive_file True rev posix fetch_env_three_bytes ''id1'' ''x.pdf'' [''root'', ''x.pdf'']
          None (Some 3) Map.empty) [''root'', ''x.pdf''] = Some ''abc''"
  using download_gdrive_file_failure [where env = fetch_env_chunk_fails and pl = posix
      and dest = "[''root'', ''x.pdf'']" and file_id = "''id1''" and vd = True and hex = rev
      and em = None and es = None and fs = "Map.empty([''root'', ''x.pdf''] \<mapsto> ''old'')"
      and name = "''x.pdf''"]
    download_gdrive_file_failure [where env = fetch_env_three_bytes and pl = posix
      and dest = "[''root'', ''x.pdf'']" and file_id = "''id1''" and vd = True and hex = rev
      and em = None and es = "Some 4" and fs = "Map.empty"
      and name = "''x.pdf''"]
  by (simp add: download_gdrive_file_def posix_def fetch_env_chunk_fails_def fetch_env_three_bytes_def fetch_body_def
        fetch_cleanup_def Let_def verify_local_file_def truthy_str_def)

section \<open>Manifest write errors do not fail the run\<close>











section \<open>Evaluating the model on the examples\<close>

text \<open>
  The definitions the simplifier unfolds to run the model on the example environments.
\<close>

lemmas example_defs = example_libs_def example_urls_def posix_def example_api_def plain_file_def
  example_folder_env_def failing_folder_env_def example_run_env_def folder_item_def
  example_downloader_def empty_world_def fetch_env_three_bytes_def fetch_env_chunk_fails_def
  example_root_def plain_meta_def plain_entry_def

lemmas model_defs = walk_folder_def default_page_size_def make_request_def list_query_def
  folder_mime_def child_name_def make_metadata_def truthy_str_def Let_def

lemmas orchestrator_defs = download_all_def download_gdrive_folder_def download_http_files_def
  after_listing_def write_manifest_def summary_logs_def verify_against_manifest_def
  process_entry_def dedupe_def local_skip_def submit_download_def initial_listing_def
  future_result_def download_gdrive_file_def fetch_body_def fetch_cleanup_def
  verify_local_file_def calculate_md5_default emit_def entry_for_def entries_of_def
  request_for_def seen_pair_def

section \<open>The listing loop and the manifest\<close>

lemma dedupe_manifest:
  "dedupe st rel em = (b, st') \<Longrightarrow> manifest st' = manifest st \<and> futures st' = futures st
     \<and> scheduled_count st' = scheduled_count st"
  by (auto simp: dedupe_def split: if_splits option.splits)

lemma process_entry_fails:
  "relative_str (paths lb) d root = None \<Longrightarrow>
   process_entry self lb root ow fs st (m, d)
     = (Some (ValueError ''path is not in the subpath of target_root''), st)"
  by (simp add: process_entry_def)

lemma process_entry_succeeds:
  "relative_str (paths lb) d root = Some rel \<Longrightarrow>
   \<exists>st'. process_entry self lb root ow fs st (m, d) = (None, st')
     \<and> manifest st' = manifest st @ [entry_for rel m]"
  by (auto simp: process_entry_def Let_def entry_for_def submit_download_def
      split: prod.splits bool.splits dest: dedupe_manifest)

lemma process_entry_None:
  "process_entry self lb root ow fs st (m, d) = (None, st') \<Longrightarrow>
   \<exists>rel. relative_str (paths lb) d root = Some rel \<and> manifest st' = manifest st @ [entry_for rel m]"
  using process_entry_fails [of lb d root self ow fs st m]
    process_entry_succeeds [of lb d root _ self ow fs st m]
  by (cases "relative_str (paths lb) d root") auto

lemma listing_loop_manifest:
  "listing_loop self lb root ow obs i pairs st = (None, st') \<Longrightarrow>
   manifest st' = manifest st @ entries_of lb root pairs
   \<and> (\<forall>pair \<in> set pairs. relative_str (paths lb) (snd pair) root \<noteq> None)"
proof (induction pairs arbitrary: i st)
  case Nil
  then show ?case by (simp add: entries_of_def)
next
  case (Cons pair rest)
  obtain m d where pair: "pair = (m, d)" by (cases pair)
  from Cons.prems obtain st1 where
    p: "process_entry self lb root ow (obs i) st (m, d) = (None, st1)"
    and l: "listing_loop self lb root ow obs (Suc i) rest st1 = (None, st')"
    by (auto simp: pair split: prod.splits option.splits)
  from process_entry_None [OF p] obtain rel where
    rel: "relative_str (paths lb) d root = Some rel" "manifest st1 = manifest st @ [entry_for rel m]"
    by blast
  from Cons.IH [OF l] rel show ?case
    by (simp add: entries_of_def pair)
qed


lemma listing_loop_append:
  "listing_loop self lb root ow obs i (xs @ ys) st =
     (case listing_loop self lb root ow obs i xs st of
        (Some e, st') \<Rightarrow> (Some e, st')
      | (None, st') \<Rightarrow> listing_loop self lb root ow obs (i + length xs) ys st')"
  by (induction xs arbitrary: i st) (auto split: prod.splits option.splits)

section \<open>On-the-fly dedupe\<close>

lemma dedupe_seen_mono:
  "dedupe st rel em = (b, st') \<Longrightarrow> seen_pair st p h \<Longrightarrow> seen_pair st' p h"
  by (auto simp: dedupe_def seen_pair_def split: if_splits option.splits)

lemma dedupe_records:
  "dedupe st rel (Some h) = (b, st') \<Longrightarrow> h \<noteq> [] \<Longrightarrow> seen_pair st' rel h"
  by (auto simp: dedupe_def seen_pair_def truthy_str_def split: if_splits option.splits)

lemma submit_download_seen [simp]:
  "seen_pair (submit_download st m d) p h = seen_pair st p h"
  by (simp add: submit_download_def seen_pair_def)

lemma manifest_update_seen [simp]:
  "seen_pair (st\<lparr>manifest := x\<rparr>) p h = seen_pair st p h"
  by (simp add: seen_pair_def)

lemma process_entry_seen_mono:
  "process_entry self lb root ow fs st pair = (r, st') \<Longrightarrow> seen_pair st p h \<Longrightarrow> seen_pair st' p h"
  by (cases pair)
     (auto simp: process_entry_def Let_def split: option.splits if_splits prod.splits bool.splits
           dest: dedupe_seen_mono)

lemma process_entry_records:
  "process_entry self lb root ow fs st (m, d) = (None, st') \<Longrightarrow>
   \<not> manifest_only self \<Longrightarrow> \<not> verify_only self \<Longrightarrow>
   relative_str (paths lb) d root = Some rel \<Longrightarrow> meta_md5Checksum m = Some h \<Longrightarrow> h \<noteq> [] \<Longrightarrow>
   seen_pair st' rel h"
  by (auto simp: process_entry_def Let_def split: option.splits if_splits prod.splits bool.splits
        dest: dedupe_records)

lemma listing_loop_seen_mono:
  "listing_loop self lb root ow obs i pairs st = (r, st') \<Longrightarrow> seen_pair st p h \<Longrightarrow> seen_pair st' p h"
proof (induction pairs arbitrary: i st)
  case Nil
  then show ?case by simp
next
  case (Cons pair rest)
  obtain r1 st1 where p: "process_entry self lb root ow (obs i) st pair = (r1, st1)"
    by (cases "process_entry self lb root ow (obs i) st pair")
  from process_entry_seen_mono [OF p Cons.prems(2)] have s1: "seen_pair st1 p h" .
  show ?case
  proof (cases r1)
    case None
    with Cons.prems(1) p have "listing_loop self lb root ow obs (Suc i) rest st1 = (r, st')" by simp
    from Cons.IH [OF this s1] show ?thesis .
  next
    case (Some e)
    with Cons.prems(1) p have "st' = st1" by simp
    with s1 show ?thesis by simp
  qed
qed

lemma listing_loop_records:
  "listing_loop self lb root ow obs i pairs st = (None, st') \<Longrightarrow>
   \<not> manifest_only self \<Longrightarrow> \<not> verify_only self \<Longrightarrow>
   (m, d) \<in> set pairs \<Longrightarrow>
   relative_str (paths lb) d root = Some rel \<Longrightarrow> meta_md5Checksum m = Some h \<Longrightarrow> h \<noteq> [] \<Longrightarrow>
   seen_pair st' rel h"
proof (induction pairs arbitrary: i st)
  case Nil
  then show ?case by simp
next
  case (Cons pair rest)
  from Cons.prems(1) obtain st1 where
    p: "process_entry self lb root ow (obs i) st pair = (None, st1)"
    and l: "listing_loop self lb root ow obs (Suc i) rest st1 = (None, st')"
    by (auto split: prod.splits option.splits)
  show ?case
  proof (cases "pair = (m, d)")
    case True
    with p Cons.prems have "seen_pair st1 rel h"
      using process_entry_records [of self lb root ow "obs i" st m d st1 rel h] by simp
    from listing_loop_seen_mono [OF l this] show ?thesis .
  next
    case False
    with Cons.prems(4) have "(m, d) \<in> set rest" by simp
    from Cons.IH [OF l Cons.prems(2) Cons.prems(3) this Cons.prems(5) Cons.prems(6) Cons.prems(7)]
    show ?thesis .
  qed
qed

lemma process_entry_duplicate:
  "\<not> manifest_only self \<Longrightarrow> \<not> verify_only self \<Longrightarrow>
   relative_str (paths lb) d root = Some rel \<Longrightarrow> meta_md5Checksum m = Some h \<Longrightarrow> h \<noteq> [] \<Longrightarrow>
   seen_pair st rel h \<Longrightarrow>
   process_entry self lb root ow fs st (m, d)
     = (None, st\<lparr> manifest := manifest st @ [entry_for rel m],
                  skipped_duplicate_count := skipped_duplicate_count st + 1 \<rparr>)"
  by (auto simp: process_entry_def Let_def dedupe_def seen_pair_def truthy_str_def entry_for_def
        split: option.splits)

text \<open>
  Claim C1, as amended. In normal download mode, when a yielded pair has the relative
  path and the md5 of a pair yielded earlier in the same enumeration, and that md5 is not
  empty, handling it raises nothing, increments the skipped-duplicate counter by one and
  schedules no download. The manifest is not deduplicated: it holds an entry for every
  pair of the enumeration, this one included, so several of its entries can have that
  path and md5.
\<close>

theorem repeated_entry:
  assumes "\<not> manifest_only self" and "\<not> verify_only self"
    and "listing_loop self lb root ow obs 0 earlier initial_listing = (None, st)"
    and "(m0, d0) \<in> set earlier"
    and "relative_str (paths lb) d0 root = Some rel" and "meta_md5Checksum m0 = Some h"
    and "h \<noteq> []"
    and "relative_str (paths lb) d root = Some rel" and "meta_md5Checksum m = Some h"
  shows "\<exists>st'. process_entry self lb root ow fs st (m, d) = (None, st')
     \<and> skipped_duplicate_count st' = skipped_duplicate_count st + 1
     \<and> futures st' = futures st
     \<and> scheduled_count st' = scheduled_count st
     \<and> manifest st' = entries_of lb root (earlier @ [(m, d)])"
proof -
  have "seen_pair st rel h"
    using listing_loop_records [OF assms(3) assms(1) assms(2) assms(4) assms(5) assms(6) assms(7)] .
  from process_entry_duplicate [OF assms(1) assms(2) assms(8) assms(9) assms(7) this, of ow fs]
  show ?thesis
    using listing_loop_manifest [OF assms(3)] assms(8)
    by (simp add: entries_of_def initial_listing_def)
qed

text \<open>
  The second of two files \<^verbatim>\<open>x.pdf\<close> with the same md5: the counter goes to one, the only
  future is the download of the first file, and the manifest has both entries.
\<close>

theorem repeated_entry_witness:
  "\<exists>st'. process_entry (example_downloader []) example_libs example_root False Map.empty
       (snd (listing_loop (example_downloader []) example_libs example_root False
               (\<lambda>i. Map.empty) 0 [(plain_meta ''id1'' ''x.pdf'', example_root @ [''x.pdf''])]
               initial_listing))
       (plain_meta ''id2'' ''x.pdf'', example_root @ [''x.pdf'']) = (None, st')
     \<and> skipped_duplicate_count st' = 1
     \<and> futures st' = [request_for (plain_meta ''id1'' ''x.pdf'') (example_root @ [''x.pdf''])]
     \<and> scheduled_count st' = 1
     \<and> manifest st' = [plain_entry ''id1'' ''x.pdf'', plain_entry ''id2'' ''x.pdf'']"
proof -
  define st where "st = snd (listing_loop (example_downloader []) example_libs example_root False
               (\<lambda>i. Map.empty) 0 [(plain_meta ''id1'' ''x.pdf'', example_root @ [''x.pdf''])]
               initial_listing)"
  have l: "listing_loop (example_downloader []) example_libs example_root False
               (\<lambda>i. Map.empty) 0 [(plain_meta ''id1'' ''x.pdf'', example_root @ [''x.pdf''])]
               initial_listing = (None, st)"
    unfolding st_def by (simp add: example_defs model_defs orchestrator_defs)
  have st: "skipped_duplicate_count st = 0"
     "futures st = [request_for (plain_meta ''id1'' ''x.pdf'') (example_root @ [''x.pdf''])]"
     "scheduled_count st = 1"
    unfolding st_def by (simp_all add: example_defs model_defs orchestrator_defs)
  have e: "entries_of example_libs example_root
       ([(plain_meta ''id1'' ''x.pdf'', example_root @ [''x.pdf''])]
         @ [(plain_meta ''id2'' ''x.pdf'', example_root @ [''x.pdf''])])
     = [plain_entry ''id1'' ''x.pdf'', plain_entry ''id2'' ''x.pdf'']"
    by (simp add: example_defs model_defs orchestrator_defs)
  have "\<exists>st'. process_entry (example_downloader []) example_libs example_root False Map.empty st
       (plain_meta ''id2'' ''x.pdf'', example_root @ [''x.pdf'']) = (None, st')
     \<and> skipped_duplicate_count st' = skipped_duplicate_count st + 1
     \<and> futures st' = futures st
     \<and> scheduled_count st' = scheduled_count st
     \<and> manifest st' = entries_of example_libs example_root
          ([(plain_meta ''id1'' ''x.pdf'', example_root @ [''x.pdf''])]
            @ [(plain_meta ''id2'' ''x.pdf'', example_root @ [''x.pdf''])])"
    by (rule repeated_entry [where ?m0.0 = "plain_meta ''id1'' ''x.pdf''"
          and ?d0.0 = "example_root @ [''x.pdf'']" and rel = "''x.pdf''" and h = "''cba''", OF _ _ l])
       (simp_all add: example_defs)
  then show ?thesis
    unfolding st_def [symmetric] using st e by simp
qed

text \<open>
  Claim C1 as stated fails in its last part. A run over the folder \<^verbatim>\<open>DUP\<close>, which lists
  the same path and md5 twice, succeeds and persists a manifest with two entries of that
  path and md5.
\<close>

theorem manifest_keeps_duplicates_counterexample:
  "download_gdrive_folder (example_downloader [folder_item ''DUP'']) example_libs
      example_folder_env 3 (folder_item ''DUP'') example_root False empty_world
     = Some (None, \<lparr> manifest_file = Some [plain_entry ''id1'' ''x.pdf'', plain_entry ''id2'' ''x.pdf''],
                      trace = [Log INFO ''Downloading Google Drive folder'',
                               WriteText [plain_entry ''id1'' ''x.pdf'', plain_entry ''id2'' ''x.pdf''] None,
                               Log INFO ''Wrote manifest'',
                               Log INFO ''Deduped download(s) by identical path+md5'',
                               FutureResult 0 None, Shutdown True] \<rparr>)
   \<and> length (filter (\<lambda>entry. entry_path entry = ''x.pdf'' \<and> entry_md5 entry = Some ''cba'')
         [plain_entry ''id1'' ''x.pdf'', plain_entry ''id2'' ''x.pdf'']) = 2"
  by (simp add: eval_nat_numeral example_defs model_defs orchestrator_defs)

section \<open>The local-skip decision\<close>

text \<open>
  Claim C7, as amended. In normal download mode, for a yielded pair whose destination
  exists, with overwrite false, and which the dedupe block does not skip as a repetition
  of an earlier path and md5: no download is scheduled when verification is disabled, none
  when verification is enabled and the local file passes the verifier against the
  expected size and md5, and otherwise (the local verification fails) exactly the
  download of this pair is scheduled.
\<close>

theorem local_skip_decision:
  assumes "\<not> manifest_only self" and "\<not> verify_only self"
    and "relative_str (paths lb) d root = Some rel"
    and "fs d \<noteq> None" and "\<not> ow"
    and "\<not> (truthy_str (meta_md5Checksum m) \<and> seen_pair st rel (the (meta_md5Checksum m)))"
  shows "\<exists>st'. process_entry self lb root ow fs st (m, d) = (None, st')
     \<and> futures st' =
         (if verify_downloads self
             \<and> \<not> verify_local_file (verify_downloads self) (md5_hexdigest lb) fs d
                   (meta_size m) (meta_md5Checksum m)
          then futures st @ [request_for m d] else futures st)"
  using assms
  by (auto simp: process_entry_def Let_def dedupe_def local_skip_def seen_pair_def
        submit_download_def request_for_def split: option.splits)

text \<open>
  A local file whose digest differs from the expected md5 is downloaded again; one
  whose digest matches is skipped; and with verification disabled the differing file is
  skipped as well.
\<close>

theorem local_skip_decision_witness:
  "(\<exists>st'. process_entry (example_downloader []) example_libs example_root False
        (Map.empty(example_root @ [''x.pdf''] \<mapsto> ''zzz'')) initial_listing
        (plain_meta ''id1'' ''x.pdf'', example_root @ [''x.pdf'']) = (None, st')
      \<and> futures st' = [request_for (plain_meta ''id1'' ''x.pdf'') (example_root @ [''x.pdf''])])
 \<and> (\<exists>st'. process_entry (example_downloader []) example_libs example_root False
        (Map.empty(example_root @ [''x.pdf''] \<mapsto> ''abc'')) initial_listing
        (plain_meta ''id1'' ''x.pdf'', example_root @ [''x.pdf'']) = (None, st')
      \<and> futures st' = [])
 \<and> (\<exists>st'. process_entry ((example_downloader []) \<lparr> verify_downloads := False \<rparr>) example_libs
        example_root False
        (Map.empty(example_root @ [''x.pdf''] \<mapsto> ''zzz'')) initial_listing
        (plain_meta ''id1'' ''x.pdf'', example_root @ [''x.pdf'']) = (None, st')
      \<and> futures st' = [])"
  using local_skip_decision [where self = "example_downloader []" and lb = example_libs
      and root = example_root and ow = False and rel = "''x.pdf''"
      and fs = "Map.empty(example_root @ [''x.pdf''] \<mapsto> ''zzz'')" and st = initial_listing
      and m = "plain_meta ''id1'' ''x.pdf''" and d = "example_root @ [''x.pdf'']"]
    local_skip_decision [where self = "example_downloader []" and lb = example_libs
      and root = example_root and ow = False and rel = "''x.pdf''"
      and fs = "Map.empty(example_root @ [''x.pdf''] \<mapsto> ''abc'')" and st = initial_listing
      and m = "plain_meta ''id1'' ''x.pdf''" and d = "example_root @ [''x.pdf'']"]
    local_skip_decision [where self = "(example_downloader []) \<lparr> verify_downloads := False \<rparr>"
      and lb = example_libs
      and root = example_root and ow = False and rel = "''x.pdf''"
      and fs = "Map.empty(example_root @ [''x.pdf''] \<mapsto> ''zzz'')" and st = initial_listing
      and m = "plain_meta ''id1'' ''x.pdf''" and d = "example_root @ [''x.pdf'']"]
  by (simp add: example_defs model_defs seen_pair_def initial_listing_def verify_local_file_def
        calculate_md5_default request_for_def)

text \<open>
  Claim C7 as stated fails for a repeated path and md5: the destination exists,
  overwrite is false, verification is enabled and the local file fails it, yet only the
  first of the two pairs is scheduled, because the second is skipped by the dedupe
  block before the local-skip decision.
\<close>

theorem duplicate_not_rescheduled_counterexample:
  "futures (snd (listing_loop (example_downloader []) example_libs example_root False
      (\<lambda>i. Map.empty(example_root @ [''x.pdf''] \<mapsto> ''zzz'')) 0
      [(plain_meta ''id1'' ''x.pdf'', example_root @ [''x.pdf'']),
       (plain_meta ''id2'' ''x.pdf'', example_root @ [''x.pdf''])] initial_listing))
     = [request_for (plain_meta ''id1'' ''x.pdf'') (example_root @ [''x.pdf''])]
 \<and> verify_downloads (example_downloader [])
 \<and> \<not> verify_local_file True (md5_hexdigest example_libs)
        (Map.empty(example_root @ [''x.pdf''] \<mapsto> ''zzz'')) (example_root @ [''x.pdf''])
        (meta_size (plain_meta ''id2'' ''x.pdf'')) (meta_md5Checksum (plain_meta ''id2'' ''x.pdf''))"
  by (simp add: example_defs model_defs orchestrator_defs)

section \<open>What the phases do to the manifest file and the trace\<close>



lemma emit_fields [simp]:
  "manifest_file (emit evs w) = manifest_file w" "trace (emit evs w) = trace w @ evs"
  by (simp_all add: emit_def)








lemma drain_no_futures: "drain self lb env [] order w = (None, w)"
  by (induction order) simp_all


section \<open>The manifest is written before the futures are drained\<close>




section \<open>An empty folder\<close>

lemma after_listing_empty:
  "after_listing self lb env root initial_listing w =
     (None, emit (if manifest_only self then [Shutdown False]
                  else if verify_only self then [Log INFO ''Verification succeeded'', Shutdown False]
                  else [Shutdown True]) w)"
  by (simp add: after_listing_def Let_def initial_listing_def write_manifest_def summary_logs_def
        verify_against_manifest_def drain_no_futures emit_def)

lemma empty_folder_writes_no_manifest:
  assumes "truthy_str (folder_id item)" and "service_fails env = None"
    and "walk_folder fuel (drive_api env) (py_int lb) (path_join (paths lb))
           (the (folder_id item)) root (recursive item) default_page_size = Some ([], None)"
  shows "\<exists>w' evs.
      download_gdrive_folder self lb env fuel item root ow w = Some (None, w')
    \<and> futures (snd (listing_loop self lb root ow (observe env) 0 [] initial_listing)) = []
    \<and> trace w' = trace w @ evs \<and> writes_in evs = [] \<and> results_in evs = []
    \<and> manifest_file w' = manifest_file w"
proof -
  have "download_gdrive_folder self lb env fuel item root ow w
      = Some (after_listing self lb env root initial_listing
                (emit [Log INFO ''Downloading Google Drive folder''] w))"
    using assms by (simp add: download_gdrive_folder_def)
  then show ?thesis
    by (simp add: after_listing_empty) (simp add: initial_listing_def)
qed

text \<open>
  Claim C8, as amended. For a config whose only item is a Drive folder that enumerates
  zero files (with the target directory created and the Drive service obtained),
  \<^verbatim>\<open>download_all\<close> completes successfully, schedules no download and asks for no
  result of a future, and does not write the manifest file: there is no write attempt,
  and the file, if there is one, stays as it was.
\<close>

theorem empty_folder_run:
  assumes "truthy_str (folder_id item)" and "service_fails (folder_envs renv 0) = None"
    and "root = path_join (paths lb) (path_of lb (output_dir (config self))) (subdir (config self))"
    and "walk_folder fuel (drive_api (folder_envs renv 0)) (py_int lb) (path_join (paths lb))
           (the (folder_id item)) root (recursive item) default_page_size = Some ([], None)"
    and "items (config self) = [item]" and "kind item = gdrive_folder"
    and "root_mkdir_fails renv = None"
  shows "\<exists>w' evs.
      download_all self lb renv fuel ow w = Some (None, w')
    \<and> futures (snd (listing_loop self lb root ow (observe (folder_envs renv 0)) 0 [] initial_listing)) = []
    \<and> trace w' = trace w @ evs \<and> writes_in evs = [] \<and> results_in evs = []
    \<and> manifest_file w' = manifest_file w"
proof -
  from empty_folder_writes_no_manifest [OF assms(1) assms(2) assms(4),
      of self ow "emit [Log INFO ''Downloading item(s)''] w"]
  obtain w' evs where f:
    "download_gdrive_folder self lb (folder_envs renv 0) fuel item root ow
        (emit [Log INFO ''Downloading item(s)''] w) = Some (None, w')"
    "trace w' = trace (emit [Log INFO ''Downloading item(s)''] w) @ evs"
    "writes_in evs = []" "results_in evs = []"
    "manifest_file w' = manifest_file (emit [Log INFO ''Downloading item(s)''] w)"
    by blast
  have "download_all self lb renv fuel ow w = Some (None, w')"
    using assms(3) assms(5) assms(6) assms(7) f(1)
    by (simp add: download_all_def Let_def)
  moreover have "trace w' = trace w @ ([Log INFO ''Downloading item(s)''] @ evs)
     \<and> writes_in ([Log INFO ''Downloading item(s)''] @ evs) = []
     \<and> results_in ([Log INFO ''Downloading item(s)''] @ evs) = []
     \<and> manifest_file w' = manifest_file w"
    using f by simp
  ultimately show ?thesis
    by (simp add: initial_listing_def)
qed

text \<open>
  A run over \<^verbatim>\<open>EMPTY\<close> with the manifest of an earlier run on disk.
\<close>

theorem empty_folder_run_witness:
  "\<exists>w' evs.
      download_all (example_downloader [folder_item ''EMPTY'']) example_libs example_run_env 3 True
        \<lparr> manifest_file = Some [plain_entry ''old'' ''old.txt''], trace = [] \<rparr> = Some (None, w')
    \<and> trace w' = evs \<and> writes_in evs = [] \<and> results_in evs = []
    \<and> manifest_file w' = Some [plain_entry ''old'' ''old.txt'']"
proof -
  have h1: "truthy_str (folder_id (folder_item ''EMPTY''))"
    by (simp add: example_defs model_defs)
  have h2: "service_fails (folder_envs example_run_env 0) = None"
    by (simp add: example_defs)
  have h3: "example_root = path_join (paths example_libs)
       (path_of example_libs (output_dir (config (example_downloader [folder_item ''EMPTY'']))))
       (subdir (config (example_downloader [folder_item ''EMPTY''])))"
    by (simp add: example_defs)
  have h4: "walk_folder 3 (drive_api (folder_envs example_run_env 0)) (py_int example_libs)
              (path_join (paths example_libs)) (the (folder_id (folder_item ''EMPTY''))) example_root
              (recursive (folder_item ''EMPTY'')) default_page_size = Some ([], None)"
    by (simp add: eval_nat_numeral example_defs model_defs)
  have h5: "items (config (example_downloader [folder_item ''EMPTY''])) = [folder_item ''EMPTY'']"
    "kind (folder_item ''EMPTY'') = gdrive_folder" "root_mkdir_fails example_run_env = None"
    by (simp_all add: example_defs)
  from empty_folder_run [OF h1 h2 h3 h4 h5, of True
      "\<lparr> manifest_file = Some [plain_entry ''old'' ''old.txt''], trace = [] \<rparr>"]
  show ?thesis by auto
qed

text \<open>
  Claim C8 as stated fails in its last part: after a run over \<^verbatim>\<open>EMPTY\<close> in a fresh
  target directory there is no manifest file, rather than an empty one.
\<close>

theorem empty_folder_counterexample:
  "download_all (example_downloader [folder_item ''EMPTY'']) example_libs example_run_env 3 False
      empty_world
     = Some (None, \<lparr> manifest_file = None,
                      trace = [Log INFO ''Downloading item(s)'',
                               Log INFO ''Downloading Google Drive folder'', Shutdown True] \<rparr>)"
  by (simp add: eval_nat_numeral example_defs model_defs orchestrator_defs)

section \<open>One manifest per Drive folder item\<close>








section \<open>Properties of the walker\<close>

lemma walk_children_result:
  "walk_children int_of joinp recursive_flag cur children (stack, out) =
     (stack @ (if recursive_flag
               then map (\<lambda>c. (item_id c, joinp cur (child_name c))) (filter is_folder children)
               else []),
      out @ map (\<lambda>c. (make_metadata int_of c, joinp cur (child_name c)))
              (filter (\<lambda>c. \<not> is_folder c) children))"
  by (induction children arbitrary: stack out) (auto simp: is_folder_def Let_def)

lemma walk_children_prefix:
  "walk_children int_of joinp rec cur children (S @ T, out) =
     (S @ fst (walk_children int_of joinp rec cur children (T, out)),
      snd (walk_children int_of joinp rec cur children (T, out)))"
  by (simp add: walk_children_result)

lemma walk_error_prefix:
  "(\<forall>fid cur tok T out out' e.
      paginate n api int_of joinp rec ps fid cur tok T out = Some (out', Some e) \<longrightarrow>
      paginate n api int_of joinp rec ps fid cur tok (S @ T) out = Some (out', Some e))
 \<and> (\<forall>T out out' e.
      walk_stack n api int_of joinp rec ps T out = Some (out', Some e) \<longrightarrow>
      walk_stack n api int_of joinp rec ps (S @ T) out = Some (out', Some e))"
proof (induction n)
  case 0
  show ?case by simp
next
  case (Suc n)
  show ?case
  proof (intro conjI allI impI)
    fix fid cur tok T out out' e
    assume a: "paginate (Suc n) api int_of joinp rec ps fid cur tok T out = Some (out', Some e)"
    show "paginate (Suc n) api int_of joinp rec ps fid cur tok (S @ T) out = Some (out', Some e)"
    proof (cases "api (make_request fid tok ps)")
      case (Inl x)
      with a show ?thesis by simp
    next
      case (Inr resp)
      obtain T1 out1 where wc: "walk_children int_of joinp rec cur (files resp) (T, out) = (T1, out1)"
        by (cases "walk_children int_of joinp rec cur (files resp) (T, out)")
      then have wc': "walk_children int_of joinp rec cur (files resp) (S @ T, out) = (S @ T1, out1)"
        by (simp add: walk_children_prefix)
      show ?thesis
      proof (cases "truthy_str (nextPageToken resp)")
        case True
        with a Inr wc have "paginate n api int_of joinp rec ps fid cur (nextPageToken resp) T1 out1
            = Some (out', Some e)" by simp
        with Suc.IH have "paginate n api int_of joinp rec ps fid cur (nextPageToken resp) (S @ T1) out1
            = Some (out', Some e)" by blast
        with Inr wc' True show ?thesis by simp
      next
        case False
        with a Inr wc have "walk_stack n api int_of joinp rec ps T1 out1 = Some (out', Some e)"
          by simp
        with Suc.IH have "walk_stack n api int_of joinp rec ps (S @ T1) out1 = Some (out', Some e)"
          by blast
        with Inr wc' False show ?thesis by simp
      qed
    qed
  next
    fix T out out' e
    assume a: "walk_stack (Suc n) api int_of joinp rec ps T out = Some (out', Some e)"
    then have T: "T \<noteq> []" by (auto split: if_splits)
    with a have "paginate n api int_of joinp rec ps (fst (last T)) (snd (last T)) None (butlast T) out
        = Some (out', Some e)" by simp
    with Suc.IH have "paginate n api int_of joinp rec ps (fst (last T)) (snd (last T)) None
        (S @ butlast T) out = Some (out', Some e)" by blast
    with T show "walk_stack (Suc n) api int_of joinp rec ps (S @ T) out = Some (out', Some e)"
      by (simp add: butlast_append)
  qed
qed

lemma walk_subtree_first:
  "(\<forall>fid cur tok T out out'.
      paginate n api int_of joinp rec ps fid cur tok T out = Some (out', None) \<longrightarrow>
      walk_stack m api int_of joinp rec ps S out' = Some r \<longrightarrow>
      (\<exists>k. paginate k api int_of joinp rec ps fid cur tok (S @ T) out = Some r))
 \<and> (\<forall>T out out'.
      walk_stack n api int_of joinp rec ps T out = Some (out', None) \<longrightarrow>
      walk_stack m api int_of joinp rec ps S out' = Some r \<longrightarrow>
      (\<exists>k. walk_stack k api int_of joinp rec ps (S @ T) out = Some r))"
proof (induction n)
  case 0
  show ?case by simp
next
  case (Suc n)
  show ?case
  proof (intro conjI allI impI)
    fix fid cur tok T out out'
    assume a: "paginate (Suc n) api int_of joinp rec ps fid cur tok T out = Some (out', None)"
      and b: "walk_stack m api int_of joinp rec ps S out' = Some r"
    show "\<exists>k. paginate k api int_of joinp rec ps fid cur tok (S @ T) out = Some r"
    proof (cases "api (make_request fid tok ps)")
      case (Inl x)
      with a show ?thesis by simp
    next
      case (Inr resp)
      obtain T1 out1 where wc: "walk_children int_of joinp rec cur (files resp) (T, out) = (T1, out1)"
        by (cases "walk_children int_of joinp rec cur (files resp) (T, out)")
      then have wc': "walk_children int_of joinp rec cur (files resp) (S @ T, out) = (S @ T1, out1)"
        by (simp add: walk_children_prefix)
      show ?thesis
      proof (cases "truthy_str (nextPageToken resp)")
        case True
        with a Inr wc have "paginate n api int_of joinp rec ps fid cur (nextPageToken resp) T1 out1
            = Some (out', None)" by simp
        with Suc.IH b obtain k where
          "paginate k api int_of joinp rec ps fid cur (nextPageToken resp) (S @ T1) out1 = Some r"
          by blast
        with Inr wc' True have "paginate (Suc k) api int_of joinp rec ps fid cur tok (S @ T) out = Some r"
          by simp
        then show ?thesis by blast
      next
        case False
        with a Inr wc have "walk_stack n api int_of joinp rec ps T1 out1 = Some (out', None)"
          by simp
        with Suc.IH b obtain k where
          "walk_stack k api int_of joinp rec ps (S @ T1) out1 = Some r" by blast
        with Inr wc' False have "paginate (Suc k) api int_of joinp rec ps fid cur tok (S @ T) out = Some r"
          by simp
        then show ?thesis by blast
      qed
    qed
  next
    fix T out out'
    assume a: "walk_stack (Suc n) api int_of joinp rec ps T out = Some (out', None)"
      and b: "walk_stack m api int_of joinp rec ps S out' = Some r"
    show "\<exists>k. walk_stack k api int_of joinp rec ps (S @ T) out = Some r"
    proof (cases "T = []")
      case True
      with a have "out' = out" by simp
      with b True show ?thesis by auto
    next
      case False
      with a have "paginate n api int_of joinp rec ps (fst (last T)) (snd (last T)) None (butlast T) out
          = Some (out', None)" by simp
      with Suc.IH b obtain k where
        "paginate k api int_of joinp rec ps (fst (last T)) (snd (last T)) None (S @ butlast T) out = Some r"
        by blast
      with False have "walk_stack (Suc k) api int_of joinp rec ps (S @ T) out = Some r"
        by (simp add: butlast_append)
      then show ?thesis by blast
    qed
  qed
qed


lemma walk_fuel_mono:
  "(\<forall>fid cur tok T out r.
      paginate n api int_of joinp rec ps fid cur tok T out = Some r \<longrightarrow>
      paginate (n + k) api int_of joinp rec ps fid cur tok T out = Some r)
 \<and> (\<forall>T out r.
      walk_stack n api int_of joinp rec ps T out = Some r \<longrightarrow>
      walk_stack (n + k) api int_of joinp rec ps T out = Some r)"
proof (induction n)
  case 0
  show ?case by simp
next
  case (Suc n)
  show ?case
  proof (intro conjI allI impI)
    fix fid cur tok T out r
    assume a: "paginate (Suc n) api int_of joinp rec ps fid cur tok T out = Some r"
    show "paginate (Suc n + k) api int_of joinp rec ps fid cur tok T out = Some r"
    proof (cases "api (make_request fid tok ps)")
      case (Inl x)
      with a show ?thesis by simp
    next
      case (Inr resp)
      obtain T1 out1 where wc: "walk_children int_of joinp rec cur (files resp) (T, out) = (T1, out1)"
        by (cases "walk_children int_of joinp rec cur (files resp) (T, out)")
      show ?thesis
      proof (cases "truthy_str (nextPageToken resp)")
        case True
        with a Inr wc have "paginate n api int_of joinp rec ps fid cur (nextPageToken resp) T1 out1
            = Some r" by simp
        with Suc.IH have "paginate (n + k) api int_of joinp rec ps fid cur (nextPageToken resp) T1 out1
            = Some r" by blast
        with Inr wc True show ?thesis by simp
      next
        case False
        with a Inr wc have "walk_stack n api int_of joinp rec ps T1 out1 = Some r" by simp
        with Suc.IH have "walk_stack (n + k) api int_of joinp rec ps T1 out1 = Some r" by blast
        with Inr wc False show ?thesis by simp
      qed
    qed
  next
    fix T out r
    assume a: "walk_stack (Suc n) api int_of joinp rec ps T out = Some r"
    show "walk_stack (Suc n + k) api int_of joinp rec ps T out = Some r"
    proof (cases "T = []")
      case True
      with a show ?thesis by simp
    next
      case False
      with a have "paginate n api int_of joinp rec ps (fst (last T)) (snd (last T)) None (butlast T) out
          = Some r" by simp
      with Suc.IH have "paginate (n + k) api int_of joinp rec ps (fst (last T)) (snd (last T)) None
          (butlast T) out = Some r" by blast
      with False show ?thesis by simp
    qed
  qed
qed

text \<open>
  Claim C6. A walk starts from the stack holding the frame of the folder and its local
  root; as long as the stack is not empty it pops the frame pushed last and paginates it
  from the first page, and it ends when the stack is empty. Each page is asked for with
  the query \<^verbatim>\<open>'<folder id>' in parents and trashed = false\<close>, and the next page is asked
  for as long as the response carries a page token. Over the children of a page, in
  order: a child with the folder mime type is pushed as the frame of its id and
  \<open>local_root / name\<close> when the walk is recursive, and ignored when it is not, and in
  both cases yields nothing; every other child yields its metadata and
  \<open>local_root / name\<close>. The name of a child is its \<^verbatim>\<open>name\<close>, or its id when it has
  none. The traversal is depth-first: the frame on top of the stack, with every frame
  pushed while it is walked, is walked to its end before any frame beneath it is popped,
  and the walk of the frames beneath continues from the pairs yielded until then; an
  exception in the walk of the top frame ends the whole walk. A walk that ends within
  some fuel ends with the same result within any larger fuel.
\<close>

theorem walk_folder_rules:
  "walk_children int_of joinp recursive_flag cur children (stack, out) =
     (stack @ (if recursive_flag
               then map (\<lambda>c. (item_id c, joinp cur (child_name c))) (filter is_folder children)
               else []),
      out @ map (\<lambda>c. (make_metadata int_of c, joinp cur (child_name c)))
              (filter (\<lambda>c. \<not> is_folder c) children))
 \<and> walk_folder (Suc (Suc fuel)) api int_of joinp folder local_root recursive_flag page_size =
     paginate (Suc fuel) api int_of joinp recursive_flag page_size folder local_root None [] []
 \<and> walk_stack (Suc fuel) api int_of joinp recursive_flag page_size (stack @ [(fid, cur)]) out =
     paginate fuel api int_of joinp recursive_flag page_size fid cur None stack out
 \<and> walk_stack (Suc fuel) api int_of joinp recursive_flag page_size [] out = Some (out, None)
 \<and> paginate (Suc fuel) api int_of joinp recursive_flag page_size fid cur page_token stack out =
     (case api \<lparr> q = [CHR 0x27] @ fid @ [CHR 0x27] @ '' in parents and trashed = false'',
                  spaces = ''drive'',
                  fields_arg = ''nextPageToken, files(id,name,mimeType,md5Checksum,size)'',
                  pageToken = page_token, pageSize = page_size,
                  supportsAllDrives = True, includeItemsFromAllDrives = True \<rparr> of
        Inl e \<Rightarrow> Some (out, Some e)
      | Inr resp \<Rightarrow>
          if truthy_str (nextPageToken resp)
          then paginate fuel api int_of joinp recursive_flag page_size fid cur (nextPageToken resp)
                 (fst (walk_children int_of joinp recursive_flag cur (files resp) (stack, out)))
                 (snd (walk_children int_of joinp recursive_flag cur (files resp) (stack, out)))
          else walk_stack fuel api int_of joinp recursive_flag page_size
                 (fst (walk_children int_of joinp recursive_flag cur (files resp) (stack, out)))
                 (snd (walk_children int_of joinp recursive_flag cur (files resp) (stack, out))))
 \<and> (\<forall>n m out' r.
       walk_stack n api int_of joinp recursive_flag page_size [(fid, cur)] out = Some (out', None)
     \<and> walk_stack m api int_of joinp recursive_flag page_size stack out' = Some r
     \<longrightarrow> (\<exists>k. walk_stack k api int_of joinp recursive_flag page_size (stack @ [(fid, cur)]) out
                 = Some r))
 \<and> (\<forall>n out' e.
       walk_stack n api int_of joinp recursive_flag page_size [(fid, cur)] out = Some (out', Some e)
     \<longrightarrow> walk_stack n api int_of joinp recursive_flag page_size (stack @ [(fid, cur)]) out
           = Some (out', Some e))
 \<and> (\<forall>n k r.
       walk_folder n api int_of joinp folder local_root recursive_flag page_size = Some r
     \<longrightarrow> walk_folder (n + k) api int_of joinp folder local_root recursive_flag page_size = Some r)"
proof -
  have a: "\<forall>n m out' r.
       walk_stack n api int_of joinp recursive_flag page_size [(fid, cur)] out = Some (out', None)
     \<and> walk_stack m api int_of joinp recursive_flag page_size stack out' = Some r
     \<longrightarrow> (\<exists>k. walk_stack k api int_of joinp recursive_flag page_size (stack @ [(fid, cur)]) out
                 = Some r)"
    using walk_subtree_first [of _ api int_of joinp recursive_flag page_size _ stack] by blast
  have b: "\<forall>n out' e.
       walk_stack n api int_of joinp recursive_flag page_size [(fid, cur)] out = Some (out', Some e)
     \<longrightarrow> walk_stack n api int_of joinp recursive_flag page_size (stack @ [(fid, cur)]) out
           = Some (out', Some e)"
    using walk_error_prefix [of _ api int_of joinp recursive_flag page_size stack] by blast
  have c: "\<forall>n k r.
       walk_folder n api int_of joinp folder local_root recursive_flag page_size = Some r
     \<longrightarrow> walk_folder (n + k) api int_of joinp folder local_root recursive_flag page_size = Some r"
    unfolding walk_folder_def
    using walk_fuel_mono [of _ api int_of joinp recursive_flag page_size] by blast
  have d: "walk_children int_of joinp recursive_flag cur children (stack, out) =
     (stack @ (if recursive_flag
               then map (\<lambda>c. (item_id c, joinp cur (child_name c))) (filter is_folder children)
               else []),
      out @ map (\<lambda>c. (make_metadata int_of c, joinp cur (child_name c)))
              (filter (\<lambda>c. \<not> is_folder c) children))"
    by (rule walk_children_result)
  have e: "walk_folder (Suc (Suc fuel)) api int_of joinp folder local_root recursive_flag page_size =
     paginate (Suc fuel) api int_of joinp recursive_flag page_size folder local_root None [] []"
    by (simp add: walk_folder_def)
  have f: "walk_stack (Suc fuel) api int_of joinp recursive_flag page_size (stack @ [(fid, cur)]) out =
     paginate fuel api int_of joinp recursive_flag page_size fid cur None stack out"
    by simp
  have g: "walk_stack (Suc fuel) api int_of joinp recursive_flag page_size [] out = Some (out, None)"
    by simp
  have h: "paginate (Suc fuel) api int_of joinp recursive_flag page_size fid cur page_token stack out =
     (case api \<lparr> q = [CHR 0x27] @ fid @ [CHR 0x27] @ '' in parents and trashed = false'',
                  spaces = ''drive'',
                  fields_arg = ''nextPageToken, files(id,name,mimeType,md5Checksum,size)'',
                  pageToken = page_token, pageSize = page_size,
                  supportsAllDrives = True, includeItemsFromAllDrives = True \<rparr> of
        Inl e \<Rightarrow> Some (out, Some e)
      | Inr resp \<Rightarrow>
          if truthy_str (nextPageToken resp)
          then paginate fuel api int_of joinp recursive_flag page_size fid cur (nextPageToken resp)
                 (fst (walk_children int_of joinp recursive_flag cur (files resp) (stack, out)))
                 (snd (walk_children int_of joinp recursive_flag cur (files resp) (stack, out)))
          else walk_stack fuel api int_of joinp recursive_flag page_size
                 (fst (walk_children int_of joinp recursive_flag cur (files resp) (stack, out)))
                 (snd (walk_children int_of joinp recursive_flag cur (files resp) (stack, out))))"
    by (simp add: make_request_def list_query_def split: sum.splits prod.splits)
  from a b c d e f g h show ?thesis by (intro conjI)
qed

text \<open>
  The walk of \<^verbatim>\<open>TOP\<close>: both pages of the folder, then the subfolder; without recursion
  the subfolder is left out. And a stack of two frames: the frame on top, \<^verbatim>\<open>F2\<close>, is
  walked before \<^verbatim>\<open>F1\<close>.
\<close>

theorem walk_folder_rules_witness:
  "walk_folder 8 example_api (py_int example_libs) (path_join posix) ''TOP'' example_root True
      default_page_size
     = Some ([(plain_meta ''id1'' ''one.txt'', example_root @ [''one.txt'']),
              (plain_meta ''id2'' ''two.txt'', example_root @ [''two.txt'']),
              (plain_meta ''id3'' ''three.txt'', example_root @ [''sub'', ''three.txt'']),
              (\<lparr> meta_id = ''id4'', meta_name = ''id4'', meta_mimeType = None,
                 meta_md5Checksum = None, meta_size = Some 12 \<rparr>,
               example_root @ [''sub'', ''id4''])], None)
 \<and> walk_folder 8 example_api (py_int example_libs) (path_join posix) ''TOP'' example_root False
      default_page_size
     = Some ([(plain_meta ''id1'' ''one.txt'', example_root @ [''one.txt'']),
              (plain_meta ''id2'' ''two.txt'', example_root @ [''two.txt''])], None)
 \<and> walk_stack 3 example_api (py_int example_libs) (path_join posix) True default_page_size
      [(''F2'', example_root)] []
     = Some ([(plain_meta ''idb'' ''b.txt'', example_root @ [''b.txt''])], None)
 \<and> walk_stack 3 example_api (py_int example_libs) (path_join posix) True default_page_size
      [(''F1'', example_root)] [(plain_meta ''idb'' ''b.txt'', example_root @ [''b.txt''])]
     = Some ([(plain_meta ''idb'' ''b.txt'', example_root @ [''b.txt'']),
              (plain_meta ''ida'' ''a.txt'', example_root @ [''a.txt''])], None)
 \<and> (\<exists>k. walk_stack k example_api (py_int example_libs) (path_join posix) True default_page_size
      ([(''F1'', example_root)] @ [(''F2'', example_root)]) []
     = Some ([(plain_meta ''idb'' ''b.txt'', example_root @ [''b.txt'']),
              (plain_meta ''ida'' ''a.txt'', example_root @ [''a.txt''])], None))"
proof -
  have w1: "walk_stack 3 example_api (py_int example_libs) (path_join posix) True default_page_size
      [(''F2'', example_root)] []
     = Some ([(plain_meta ''idb'' ''b.txt'', example_root @ [''b.txt''])], None)"
    by (simp add: eval_nat_numeral example_defs model_defs)
  have w2: "walk_stack 3 example_api (py_int example_libs) (path_join posix) True default_page_size
      [(''F1'', example_root)] [(plain_meta ''idb'' ''b.txt'', example_root @ [''b.txt''])]
     = Some ([(plain_meta ''idb'' ''b.txt'', example_root @ [''b.txt'']),
              (plain_meta ''ida'' ''a.txt'', example_root @ [''a.txt''])], None)"
    by (simp add: eval_nat_numeral example_defs model_defs)
  have w3: "\<exists>k. walk_stack k example_api (py_int example_libs) (path_join posix) True default_page_size
      ([(''F1'', example_root)] @ [(''F2'', example_root)]) []
     = Some ([(plain_meta ''idb'' ''b.txt'', example_root @ [''b.txt'']),
              (plain_meta ''ida'' ''a.txt'', example_root @ [''a.txt''])], None)"
    using walk_folder_rules [where api = example_api and int_of = "py_int example_libs"
        and joinp = "path_join posix" and recursive_flag = True and page_size = default_page_size
        and fid = "''F2''" and cur = example_root and stack = "[(''F1'', example_root)]"
        and out = "[]"] w1 w2
    by blast
  have w4: "walk_folder 8 example_api (py_int example_libs) (path_join posix) ''TOP'' example_root True
      default_page_size
     = Some ([(plain_meta ''id1'' ''one.txt'', example_root @ [''one.txt'']),
              (plain_meta ''id2'' ''two.txt'', example_root @ [''two.txt'']),
              (plain_meta ''id3'' ''three.txt'', example_root @ [''sub'', ''three.txt'']),
              (\<lparr> meta_id = ''id4'', meta_name = ''id4'', meta_mimeType = None,
                 meta_md5Checksum = None, meta_size = Some 12 \<rparr>,
               example_root @ [''sub'', ''id4''])], None)"
    by (simp add: eval_nat_numeral example_defs model_defs)
  have w5: "walk_folder 8 example_api (py_int example_libs) (path_join posix) ''TOP'' example_root False
      default_page_size
     = Some ([(plain_meta ''id1'' ''one.txt'', example_root @ [''one.txt'']),
              (plain_meta ''id2'' ''two.txt'', example_root @ [''two.txt''])], None)"
    by (simp add: eval_nat_numeral example_defs model_defs)
  from w1 w2 w3 w4 w5 show ?thesis by (intro conjI)
qed

section \<open>The file name of an HTTP item\<close>

text \<open>
  Claim C9, as amended. For an \<^verbatim>\<open>http_file\<close> item with a url and no (or an empty)
  filename, \<^verbatim>\<open>_download_http_file\<close> takes as filename the name of the percent-decoded
  path of the url, and raises ValueError, touching no file, when that name is empty. The
  error arises at download time only: \<^verbatim>\<open>_load_config\<close> accepts every \<^verbatim>\<open>http_file\<close> item
  whose url is not empty, whether or not a name can be derived from it.
\<close>

theorem http_filename_rules:
  "(truthy_str (url item) \<and> \<not> truthy_str (filename item) \<longrightarrow>
      http_filename lib item =
        (if path_name lib (unquote lib (urlparse_path lib (the (url item)))) = []
         then Inl (ValueError ''Cannot infer filename from URL'')
         else Inr (path_name lib (unquote lib (urlparse_path lib (the (url item)))))))
 \<and> (\<forall>e. http_filename lib item = Inl e \<longrightarrow>
        download_http_file lib pl env item root ow fs = (Some e, fs))
 \<and> (truthy_str (y_url yi) \<and> (y_kind yi = None \<or> y_kind yi = Some ''http_file'') \<longrightarrow>
      parse_item (YMapping yi) =
        Inr \<lparr> kind = http_file, url = y_url yi, filename = y_filename yi,
              folder_id = None, recursive = False \<rparr>)"
  by (auto simp: http_filename_def download_http_file_def parse_item_def Let_def
        split: option.splits)

text \<open>
  The url \<^verbatim>\<open>https://host/x.txt\<close> gives the name \<^verbatim>\<open>x.txt\<close>; the url \<^verbatim>\<open>https://host/\<close>
  gives none, the download raises, and the loader accepts the item.
\<close>

theorem http_filename_rules_witness:
  "http_filename example_urls
       \<lparr> kind = http_file, url = Some ''https://host/x.txt'', filename = None,
         folder_id = None, recursive = False \<rparr> = Inr ''x.txt''
 \<and> http_filename example_urls
       \<lparr> kind = http_file, url = Some ''https://host/'', filename = None,
         folder_id = None, recursive = False \<rparr> = Inl (ValueError ''Cannot infer filename from URL'')
 \<and> download_http_file example_urls posix (http_worker_env example_run_env 0)
       \<lparr> kind = http_file, url = Some ''https://host/'', filename = None,
         folder_id = None, recursive = False \<rparr> example_root False Map.empty
     = (Some (ValueError ''Cannot infer filename from URL''), Map.empty)
 \<and> parse_item (YMapping \<lparr> y_kind = None, y_url = Some ''https://host/'', y_filename = None,
                          y_folder_id = None, y_recursive = None \<rparr>)
     = Inr \<lparr> kind = http_file, url = Some ''https://host/'', filename = None,
             folder_id = None, recursive = False \<rparr>"
  using http_filename_rules [where lib = example_urls
      and item = "\<lparr> kind = http_file, url = Some ''https://host/x.txt'', filename = None,
         folder_id = None, recursive = False \<rparr>"]
    http_filename_rules [where lib = example_urls and pl = posix
      and env = "http_worker_env example_run_env 0" and root = example_root and ow = False
      and fs = Map.empty
      and item = "\<lparr> kind = http_file, url = Some ''https://host/'', filename = None,
         folder_id = None, recursive = False \<rparr>"
      and yi = "\<lparr> y_kind = None, y_url = Some ''https://host/'', y_filename = None,
                          y_folder_id = None, y_recursive = None \<rparr>"]
  by (simp add: example_urls_def truthy_str_def http_filename_def download_http_file_def
        parse_item_def Let_def)

text \<open>
  Claim C9 as stated fails in its last part: a config whose only item is the url
  \<^verbatim>\<open>https://host/\<close> with no filename is loaded without an error, although no file name
  can be derived from the url.
\<close>

theorem nameless_url_accepted_by_loader_counterexample:
  "load_config
     (Some (YRoot \<lparr> y_source = Some ''src'', y_description = None, y_output_dir = None,
                    y_subdir = None,
                    y_items = Some [YMapping \<lparr> y_kind = Some ''http_file'',
                                               y_url = Some ''https://host/'', y_filename = None,
                                               y_folder_id = None, y_recursive = None \<rparr>] \<rparr>)) None
     = Inr \<lparr> source = ''src'', description = None, output_dir = ''downloads/datasets'',
             subdir = ''src'',
             items = [\<lparr> kind = http_file, url = Some ''https://host/'', filename = None,
                        folder_id = None, recursive = False \<rparr>] \<rparr>
 \<and> http_filename example_urls
       \<lparr> kind = http_file, url = Some ''https://host/'', filename = None,
         folder_id = None, recursive = False \<rparr>
     = Inl (ValueError ''Cannot infer filename from URL'')"
  by (simp add: load_config_def parse_item_def http_filename_def example_urls_def truthy_str_def
        Let_def)

end
